theory Spec2Isabelle
  imports Main
begin

section \<open>Strings and numbers of the JavaScript runtime\<close>

text \<open>
  Strings are byte strings restricted to ASCII: case conversion and white space are the
  ASCII ones. A JavaScript number is modelled as \<open>NaN\<close> or an integer (the values the
  modelled code produces from \<open>parseInt\<close>, from \<open>length\<close> and from status codes);
  fractions, infinities, the sign of zero and rounding beyond \<open>2^53\<close> are outside the
  model.
\<close>

datatype number = NaN | Num int

text \<open>\<open>Array.prototype.join\<close> on an array of strings.\<close>

fun join :: "string \<Rightarrow> string list \<Rightarrow> string" where
  "join sep [] = []"
| "join sep [x] = x"
| "join sep (x # y # ys) = x @ sep @ join sep (y # ys)"

text \<open>\<open>String.prototype.includes\<close>: is \<open>pat\<close> a contiguous part of the string.\<close>

fun str_includes :: "string \<Rightarrow> string \<Rightarrow> bool" where
  "str_includes [] pat = (pat = [])"
| "str_includes (c # cs) pat = (take (length pat) (c # cs) = pat \<or> str_includes cs pat)"

definition lower_letters :: string where
  "lower_letters = ''abcdefghijklmnopqrstuvwxyz''"

definition upper_letters :: string where
  "upper_letters = ''ABCDEFGHIJKLMNOPQRSTUVWXYZ''"

definition is_upper :: "char \<Rightarrow> bool" where
  "is_upper c = (c \<in> set upper_letters)"

definition toUpperCase_char :: "char \<Rightarrow> char" where
  "toUpperCase_char c =
     (case map_of (zip lower_letters upper_letters) c of Some u \<Rightarrow> u | None \<Rightarrow> c)"

definition toLowerCase_char :: "char \<Rightarrow> char" where
  "toLowerCase_char c =
     (case map_of (zip upper_letters lower_letters) c of Some l \<Rightarrow> l | None \<Rightarrow> c)"

definition toLowerCase :: "string \<Rightarrow> string" where
  "toLowerCase s = map toLowerCase_char s"

text \<open>White space as \<open>trim\<close> and \<open>parseInt\<close> see it: TAB, LF, VT, FF, CR and SP.\<close>

definition is_space :: "char \<Rightarrow> bool" where
  "is_space c = (c \<in> set [CHR 0x09, CHR 0x0A, CHR 0x0B, CHR 0x0C, CHR 0x0D, CHR '' ''])"

definition trimStart :: "string \<Rightarrow> string" where
  "trimStart s = dropWhile is_space s"

definition trim :: "string \<Rightarrow> string" where
  "trim s = rev (dropWhile is_space (rev (dropWhile is_space s)))"

definition digit_chars :: string where
  "digit_chars = ''0123456789''"

definition digit_value :: "char \<Rightarrow> nat option" where
  "digit_value c = map_of (zip digit_chars [0, 1, 2, 3, 4, 5, 6, 7, 8, 9]) c"

definition is_digit :: "char \<Rightarrow> bool" where
  "is_digit c = (digit_value c \<noteq> None)"

text \<open>Decimal numerals, as \<open>String(n)\<close> writes an integer.\<close>

function string_of_nat :: "nat \<Rightarrow> string" where
  "string_of_nat n =
     (if n < 10 then [digit_chars ! n]
      else string_of_nat (n div 10) @ [digit_chars ! (n mod 10)])"
  by pat_completeness auto
termination
  by (relation "measure (\<lambda>n. n)") auto

declare string_of_nat.simps [simp del]

definition string_of_int :: "int \<Rightarrow> string" where
  "string_of_int i = (if i < 0 then CHR ''-'' # string_of_nat (nat (- i)) else string_of_nat (nat i))"

definition number_to_string :: "number \<Rightarrow> string" where
  "number_to_string x = (case x of NaN \<Rightarrow> ''NaN'' | Num i \<Rightarrow> string_of_int i)"

text \<open>The value of a run of decimal digits, most significant first.\<close>

definition digits_value :: "string \<Rightarrow> nat" where
  "digits_value ds = foldl (\<lambda>acc c. 10 * acc + (case digit_value c of Some d \<Rightarrow> d | None \<Rightarrow> 0)) 0 ds"

text \<open>
  \<open>parseInt(s, 10)\<close>: leading white space is skipped, one sign is read, then the longest
  run of decimal digits; with no digit there the result is \<open>NaN\<close>. What follows the
  digits is ignored.
\<close>

definition parseInt10 :: "string \<Rightarrow> number" where
  "parseInt10 s =
     (let t = trimStart s;
          neg = (t \<noteq> [] \<and> hd t = CHR ''-'');
          u = (if t \<noteq> [] \<and> (hd t = CHR ''-'' \<or> hd t = CHR ''+'') then tl t else t);
          z = takeWhile is_digit u
      in if z = [] then NaN
         else if neg then Num (- int (digits_value z))
         else Num (int (digits_value z)))"

section \<open>JSON-like values\<close>

text \<open>
  An object is the list of its own enumerable properties in the order \<open>Object.keys\<close>
  lists them; property names of a well-formed object are distinct. The object that
  creating properties in a given order makes is \<open>object_of\<close> below. \<open>JFunction n\<close>
  is the built-in function named \<open>n\<close>: no JSON text denotes it, but a property read
  finds it on a prototype.
\<close>

datatype jsval =
    JUndefined
  | JNull
  | JBool bool
  | JNum number
  | JStr string
  | JArr "jsval list"
  | JObj "(string \<times> jsval) list"
  | JFunction string

text \<open>\<open>String(v)\<close>, which is also how a template literal converts \<open>v\<close>.\<close>

fun to_string :: "jsval \<Rightarrow> string" where
  "to_string JUndefined = ''undefined''"
| "to_string JNull = ''null''"
| "to_string (JBool b) = (if b then ''true'' else ''false'')"
| "to_string (JNum x) = number_to_string x"
| "to_string (JStr s) = s"
| "to_string (JArr xs) =
     join '','' (map (\<lambda>x. if x = JUndefined \<or> x = JNull then [] else to_string x) xs)"
| "to_string (JObj ps) = ''[object Object]''"
| "to_string (JFunction n) = ''function '' @ n @ ''() { [native code] }''"

text \<open>Truthiness, as \<open>||\<close>, \<open>?:\<close> and \<open>if\<close> test it.\<close>

fun truthy :: "jsval \<Rightarrow> bool" where
  "truthy JUndefined = False"
| "truthy JNull = False"
| "truthy (JBool b) = b"
| "truthy (JNum x) = (x \<noteq> NaN \<and> x \<noteq> Num 0)"
| "truthy (JStr s) = (s \<noteq> [])"
| "truthy (JArr xs) = True"
| "truthy (JObj ps) = True"
| "truthy (JFunction n) = True"

definition nullish :: "jsval \<Rightarrow> bool" where
  "nullish v = (v = JUndefined \<or> v = JNull)"

text \<open>\<open>typeof v === 'object'\<close>\<close>

fun typeof_object :: "jsval \<Rightarrow> bool" where
  "typeof_object JNull = True"
| "typeof_object (JArr xs) = True"
| "typeof_object (JObj ps) = True"
| "typeof_object v = False"

text \<open>The index a property name denotes in an array or string of length \<open>n\<close>.\<close>

definition array_index :: "string \<Rightarrow> nat \<Rightarrow> nat option" where
  "array_index k n = List.find (\<lambda>i. string_of_nat i = k) [0..<n]"

text \<open>
  The members of \<open>Object.prototype\<close>, which every object inherits: the functions by
  their names, \<open>constructor\<close> the function \<open>Object\<close>, and \<open>__proto__\<close> the prototype
  itself, an object without enumerable properties.
\<close>

definition object_prototype :: "(string \<times> jsval) list" where
  "object_prototype =
     [(''constructor'', JFunction ''Object''),
      (''hasOwnProperty'', JFunction ''hasOwnProperty''),
      (''isPrototypeOf'', JFunction ''isPrototypeOf''),
      (''propertyIsEnumerable'', JFunction ''propertyIsEnumerable''),
      (''toLocaleString'', JFunction ''toLocaleString''),
      (''toString'', JFunction ''toString''),
      (''valueOf'', JFunction ''valueOf''),
      (''__defineGetter__'', JFunction ''__defineGetter__''),
      (''__defineSetter__'', JFunction ''__defineSetter__''),
      (''__lookupGetter__'', JFunction ''__lookupGetter__''),
      (''__lookupSetter__'', JFunction ''__lookupSetter__''),
      (''__proto__'', JObj [])]"


text \<open>
  Reading property \<open>k\<close> of a value that is neither \<open>null\<close> nor \<open>undefined\<close>;
  on those two the read throws a \<open>TypeError\<close>, which the callers below test for.
  An object gives its own property of that name, else the member of that name of
  \<open>Object.prototype\<close>, else \<open>undefined\<close>. Of an array, a string and a function the
  model has the own properties \<open>length\<close>, the elements and \<open>name\<close>; what these and
  numbers and booleans inherit from their prototypes is outside the model.
\<close>

fun get_prop :: "jsval \<Rightarrow> string \<Rightarrow> jsval" where
  "get_prop (JObj ps) k =
     (case map_of ps k of
        Some v \<Rightarrow> v
      | None \<Rightarrow> (case map_of object_prototype k of Some m \<Rightarrow> m | None \<Rightarrow> JUndefined))"
| "get_prop (JArr xs) k =
     (if k = ''length'' then JNum (Num (int (length xs)))
      else case array_index k (length xs) of Some i \<Rightarrow> xs ! i | None \<Rightarrow> JUndefined)"
| "get_prop (JStr s) k =
     (if k = ''length'' then JNum (Num (int (length s)))
      else case array_index k (length s) of Some i \<Rightarrow> JStr [s ! i] | None \<Rightarrow> JUndefined)"
| "get_prop (JFunction n) k = (if k = ''name'' then JStr n else JUndefined)"
| "get_prop v k = JUndefined"

datatype runtime_error = TypeError

text \<open>\<open>v?.k\<close> and \<open>v?.[k]\<close>\<close>

definition opt_member :: "jsval \<Rightarrow> string \<Rightarrow> jsval" where
  "opt_member v k = (if nullish v then JUndefined else get_prop v k)"

text \<open>\<open>Object.keys\<close>\<close>

fun Object_keys :: "jsval \<Rightarrow> runtime_error + string list" where
  "Object_keys JUndefined = Inl TypeError"
| "Object_keys JNull = Inl TypeError"
| "Object_keys (JObj ps) = Inr (map fst ps)"
| "Object_keys (JArr xs) = Inr (map string_of_nat [0..<length xs])"
| "Object_keys (JStr s) = Inr (map string_of_nat [0..<length s])"
| "Object_keys v = Inr []"

subsection \<open>\<open>JSON.stringify\<close>\<close>

definition hex_chars :: string where
  "hex_chars = ''0123456789abcdef''"

definition quote_char :: "char \<Rightarrow> string" where
  "quote_char c =
     (if c = CHR 0x08 then [CHR 0x5C, CHR ''b'']
      else if c = CHR 0x09 then [CHR 0x5C, CHR ''t'']
      else if c = CHR 0x0A then [CHR 0x5C, CHR ''n'']
      else if c = CHR 0x0C then [CHR 0x5C, CHR ''f'']
      else if c = CHR 0x0D then [CHR 0x5C, CHR ''r'']
      else if c = CHR 0x22 then [CHR 0x5C, CHR 0x22]
      else if c = CHR 0x5C then [CHR 0x5C, CHR 0x5C]
      else if (of_char c :: nat) < 32
        then [CHR 0x5C, CHR ''u'', CHR ''0'', CHR ''0'',
              hex_chars ! ((of_char c :: nat) div 16), hex_chars ! ((of_char c :: nat) mod 16)]
      else [c])"

definition quote :: "string \<Rightarrow> string" where
  "quote s = CHR 0x22 # concat (map quote_char s) @ [CHR 0x22]"

text \<open>
  The serialisation of a value other than \<open>undefined\<close> and a function, with
  indentation unit \<open>gap\<close> at current indentation \<open>ind\<close>. A property whose value is
  \<open>undefined\<close> or a function is left out of an object; such an array element is
  written \<open>null\<close>, and so is \<open>NaN\<close>.
\<close>

fun not_serialised :: "jsval \<Rightarrow> bool" where
  "not_serialised JUndefined = True"
| "not_serialised (JFunction n) = True"
| "not_serialised v = False"

fun json_ser :: "string \<Rightarrow> string \<Rightarrow> jsval \<Rightarrow> string" where
  "json_ser gap ind JUndefined = ''null''"
| "json_ser gap ind JNull = ''null''"
| "json_ser gap ind (JBool b) = (if b then ''true'' else ''false'')"
| "json_ser gap ind (JNum x) = (case x of NaN \<Rightarrow> ''null'' | Num i \<Rightarrow> string_of_int i)"
| "json_ser gap ind (JStr s) = quote s"
| "json_ser gap ind (JArr xs) =
     (let partial = map (\<lambda>x. json_ser gap (ind @ gap) x) xs
      in if partial = [] then ''[]''
         else if gap = [] then ''['' @ join '','' partial @ '']''
         else ''['' @ [CHR 0x0A] @ ind @ gap @ join ('','' @ [CHR 0x0A] @ ind @ gap) partial
              @ [CHR 0x0A] @ ind @ '']'')"
| "json_ser gap ind (JObj ps) =
     (let partial =
            map (\<lambda>p. quote (fst p) @ '':'' @ (if gap = [] then [] else '' '')
                        @ json_ser gap (ind @ gap) (snd p))
              (filter (\<lambda>p. \<not> not_serialised (snd p)) ps)
      in if partial = [] then ''{}''
         else if gap = [] then ''{'' @ join '','' partial @ ''}''
         else ''{'' @ [CHR 0x0A] @ ind @ gap @ join ('','' @ [CHR 0x0A] @ ind @ gap) partial
              @ [CHR 0x0A] @ ind @ ''}'')"
| "json_ser gap ind (JFunction n) = ''null''"

text \<open>\<open>JSON.stringify(v)\<close> and \<open>JSON.stringify(v, null, 2)\<close>; \<open>None\<close> is \<open>undefined\<close>.\<close>

definition JSON_stringify :: "jsval \<Rightarrow> string option" where
  "JSON_stringify v = (if not_serialised v then None else Some (json_ser [] [] v))"

definition JSON_stringify2 :: "jsval \<Rightarrow> string option" where
  "JSON_stringify2 v = (if not_serialised v then None else Some (json_ser ''  '' [] v))"

section \<open>Error taxonomy\<close>

text \<open>
  The class of an error object is what \<open>instanceof\<close> tests; \<open>SegmentApiError\<close> is the
  base class (the kind \<open>Generic\<close>) and the other five extend it.
\<close>

datatype error_class =
    SegmentApiError
  | RateLimitError
  | AuthenticationError
  | NotFoundError
  | ValidationError
  | MissingCredentialsError

record segment_api_error =
  cls :: error_class
  name :: string
  message :: string
  statusCode :: "nat option"
  code :: string
  retryable :: bool
  retryAfterSeconds :: "number option"
  details :: "(string \<times> string list) list option"

text \<open>
  \<open>constructor(message, statusCode?, code?, retryable = false)\<close>: an argument left out
  is \<open>None\<close>; \<open>code || 'SEGMENT_ERROR'\<close> also replaces the empty string.
\<close>

definition new_SegmentApiError ::
  "string \<Rightarrow> nat option \<Rightarrow> string option \<Rightarrow> bool option \<Rightarrow> segment_api_error" where
  "new_SegmentApiError msg status c r =
     \<lparr>cls = SegmentApiError,
      name = ''SegmentApiError'',
      message = msg,
      statusCode = status,
      code = (case c of None \<Rightarrow> ''SEGMENT_ERROR''
              | Some x \<Rightarrow> if x = [] then ''SEGMENT_ERROR'' else x),
      retryable = (case r of None \<Rightarrow> False | Some b \<Rightarrow> b),
      retryAfterSeconds = None,
      details = None\<rparr>"

definition new_RateLimitError :: "string \<Rightarrow> number \<Rightarrow> segment_api_error" where
  "new_RateLimitError msg secs =
     (new_SegmentApiError msg (Some 429) (Some ''RATE_LIMIT_EXCEEDED'') (Some True))
       \<lparr>cls := RateLimitError, name := ''RateLimitError'', retryAfterSeconds := Some secs\<rparr>"

definition new_AuthenticationError :: "string \<Rightarrow> segment_api_error" where
  "new_AuthenticationError msg =
     (new_SegmentApiError msg (Some 401) (Some ''AUTHENTICATION_FAILED'') (Some False))
       \<lparr>cls := AuthenticationError, name := ''AuthenticationError''\<rparr>"

definition new_NotFoundError :: "string \<Rightarrow> string \<Rightarrow> segment_api_error" where
  "new_NotFoundError entityType ident =
     (new_SegmentApiError (entityType @ '' with ID '' @ [CHR 0x27] @ ident @ [CHR 0x27] @ '' not found'')
        (Some 404) (Some ''NOT_FOUND'') (Some False))
       \<lparr>cls := NotFoundError, name := ''NotFoundError''\<rparr>"

definition new_ValidationError ::
  "string \<Rightarrow> (string \<times> string list) list option \<Rightarrow> segment_api_error" where
  "new_ValidationError msg ds =
     (new_SegmentApiError msg (Some 400) (Some ''VALIDATION_ERROR'') (Some False))
       \<lparr>cls := ValidationError, name := ''ValidationError'',
        details := Some (case ds of None \<Rightarrow> [] | Some d \<Rightarrow> d)\<rparr>"

definition new_MissingCredentialsError :: "string \<Rightarrow> segment_api_error" where
  "new_MissingCredentialsError requiredCredential =
     (new_SegmentApiError
        (''Missing required credential: '' @ requiredCredential
           @ ''. Please provide it via request headers.'')
        (Some 401) (Some ''MISSING_CREDENTIALS'') (Some False))
       \<lparr>cls := MissingCredentialsError, name := ''MissingCredentialsError''\<rparr>"

text \<open>Every way of constructing an error object: one constructor call with its arguments.\<close>

datatype ctor_call =
    New_SegmentApiError string "nat option" "string option" "bool option"
  | New_RateLimitError string number
  | New_AuthenticationError string
  | New_NotFoundError string string
  | New_ValidationError string "(string \<times> string list) list option"
  | New_MissingCredentialsError string

fun construct :: "ctor_call \<Rightarrow> segment_api_error" where
  "construct (New_SegmentApiError msg status c r) = new_SegmentApiError msg status c r"
| "construct (New_RateLimitError msg secs) = new_RateLimitError msg secs"
| "construct (New_AuthenticationError msg) = new_AuthenticationError msg"
| "construct (New_NotFoundError entityType ident) = new_NotFoundError entityType ident"
| "construct (New_ValidationError msg ds) = new_ValidationError msg ds"
| "construct (New_MissingCredentialsError c) = new_MissingCredentialsError c"

text \<open>The base constructor called with its fourth argument given as \<open>true\<close>.\<close>

fun explicit_retryable :: "ctor_call \<Rightarrow> bool" where
  "explicit_retryable (New_SegmentApiError msg status c (Some True)) = True"
| "explicit_retryable call = False"

text \<open>
  What a \<open>catch\<close> can receive: an error of the taxonomy, any other \<open>Error\<close> (a rejected
  \<open>fetch\<close>, a \<open>SyntaxError\<close> of the JSON parser, a \<open>TypeError\<close>), or a value that is no
  \<open>Error\<close>.
\<close>

record js_error =
  err_name :: string
  err_message :: string
  err_stack :: "string option"

datatype thrown = ApiErr segment_api_error | JsErr js_error | NonError jsval

fun isRetryableError :: "thrown \<Rightarrow> bool" where
  "isRetryableError (ApiErr e) = retryable e"
| "isRetryableError (JsErr e) =
     (str_includes (err_message e) ''network''
      \<or> str_includes (err_message e) ''timeout''
      \<or> str_includes (err_message e) ''ECONNRESET'')"
| "isRetryableError (NonError v) = False"

definition details_value :: "(string \<times> string list) list \<Rightarrow> jsval" where
  "details_value ds = JObj (map (\<lambda>p. (fst p, JArr (map JStr (snd p)))) ds)"

definition opt_value :: "('a \<Rightarrow> jsval) \<Rightarrow> 'a option \<Rightarrow> jsval" where
  "opt_value f x = (case x of None \<Rightarrow> JUndefined | Some y \<Rightarrow> f y)"

fun formatErrorForLogging :: "thrown \<Rightarrow> (string \<times> jsval) list" where
  "formatErrorForLogging (ApiErr e) =
     [(''name'', JStr (name e)),
      (''message'', JStr (message e)),
      (''code'', JStr (code e)),
      (''statusCode'', opt_value (\<lambda>n. JNum (Num (int n))) (statusCode e)),
      (''retryable'', JBool (retryable e))]
     @ (if cls e = RateLimitError
        then [(''retryAfterSeconds'', opt_value JNum (retryAfterSeconds e))] else [])
     @ (if cls e = ValidationError
        then [(''details'', opt_value details_value (details e))] else [])"
| "formatErrorForLogging (JsErr e) =
     [(''name'', JStr (err_name e)),
      (''message'', JStr (err_message e)),
      (''stack'', opt_value JStr (err_stack e))]"
| "formatErrorForLogging (NonError v) = [(''error'', JStr (to_string v))]"

section \<open>Response formatting\<close>

text \<open>
  A tool response: the texts of its \<open>content\<close> items (each of type \<open>text\<close>; \<open>None\<close>
  is a text that \<open>JSON.stringify\<close> left \<open>undefined\<close>) and the optional \<open>isError\<close>.
\<close>

record tool_response =
  content :: "string option list"
  isError :: "bool option"

fun formatError :: "thrown \<Rightarrow> tool_response" where
  "formatError err =
     (let errorInfo = formatErrorForLogging err;
          msg = (case err of
                   ApiErr e \<Rightarrow> ''Error: '' @ message e @ (if retryable e then '' (retryable)'' else [])
                 | JsErr e \<Rightarrow> ''Error: '' @ err_message e
                 | NonError v \<Rightarrow> ''Error: '' @ to_string v)
      in \<lparr>content = [JSON_stringify2 (JObj [(''error'', JStr msg), (''details'', JObj errorInfo)])],
          isError = Some True\<rparr>)"

definition nl :: string where
  "nl = [CHR 0x0A]"

text \<open>\<open>str.charAt(0).toUpperCase() + str.slice(1)\<close>\<close>

fun capitalize :: "string \<Rightarrow> string" where
  "capitalize [] = []"
| "capitalize (c # cs) = toUpperCase_char c # cs"

text \<open>\<open>key.replace(/([A-Z])/g, ' $1')\<close>\<close>

definition space_capitals :: "string \<Rightarrow> string" where
  "space_capitals key = concat (map (\<lambda>c. if is_upper c then [CHR '' '', c] else [c]) key)"

text \<open>\<open>.replace(/^./, (str) => str.toUpperCase())\<close>: the dot matches no line terminator.\<close>

fun upper_first :: "string \<Rightarrow> string" where
  "upper_first [] = []"
| "upper_first (c # cs) =
     (if c = CHR 0x0A \<or> c = CHR 0x0D then c # cs else toUpperCase_char c # cs)"

definition formatKey :: "string \<Rightarrow> string" where
  "formatKey key = trim (upper_first (space_capitals key))"

text \<open>\<open>entityType.replace(/s$/, '')\<close>\<close>

definition strip_final_s :: "string \<Rightarrow> string" where
  "strip_final_s s = (if s \<noteq> [] \<and> last s = CHR ''s'' then butlast s else s)"

text \<open>
  The eight typed tables share one shape: a header, a separator and one row per item;
  reading a field of an item that is \<open>null\<close> or \<open>undefined\<close> throws.
\<close>

definition table_of ::
  "string \<Rightarrow> string \<Rightarrow> (jsval \<Rightarrow> string) \<Rightarrow> jsval list \<Rightarrow> runtime_error + string" where
  "table_of header separator row items =
     (if list_ex nullish items then Inl TypeError
      else Inr (join nl (header # separator # map row items)))"

text \<open>\<open>${item.k}\<close>, \<open>${item.k ? 'Yes' : 'No'}\<close> and \<open>${v || alt}\<close>\<close>

definition field :: "jsval \<Rightarrow> string \<Rightarrow> string" where
  "field item k = to_string (get_prop item k)"

definition yes_no :: "jsval \<Rightarrow> string \<Rightarrow> string" where
  "yes_no item k = (if truthy (get_prop item k) then ''Yes'' else ''No'')"

definition or_else :: "jsval \<Rightarrow> string \<Rightarrow> string" where
  "or_else v alt = (if truthy v then to_string v else alt)"

definition formatSourcesTable :: "jsval list \<Rightarrow> runtime_error + string" where
  "formatSourcesTable sources =
     table_of ''| ID | Name | Slug | Enabled |'' ''|---|---|---|---|''
       (\<lambda>source. ''| '' @ field source ''id'' @ '' | '' @ field source ''name'' @ '' | ''
          @ field source ''slug'' @ '' | '' @ yes_no source ''enabled'' @ '' |'')
       sources"

definition formatDestinationsTable :: "jsval list \<Rightarrow> runtime_error + string" where
  "formatDestinationsTable destinations =
     table_of ''| ID | Name | Type | Enabled |'' ''|---|---|---|---|''
       (\<lambda>dest. ''| '' @ field dest ''id'' @ '' | '' @ field dest ''name'' @ '' | ''
          @ or_else (opt_member (get_prop dest ''metadata'') ''name'') ''-'' @ '' | ''
          @ yes_no dest ''enabled'' @ '' |'')
       destinations"

definition formatWarehousesTable :: "jsval list \<Rightarrow> runtime_error + string" where
  "formatWarehousesTable warehouses =
     table_of ''| ID | Name | Type | Enabled |'' ''|---|---|---|---|''
       (\<lambda>wh. ''| '' @ field wh ''id'' @ '' | '' @ or_else (get_prop wh ''name'') ''-'' @ '' | ''
          @ or_else (opt_member (get_prop wh ''metadata'') ''name'') ''-'' @ '' | ''
          @ yes_no wh ''enabled'' @ '' |'')
       warehouses"

definition formatTrackingPlansTable :: "jsval list \<Rightarrow> runtime_error + string" where
  "formatTrackingPlansTable plans =
     table_of ''| ID | Name | Type | Updated |'' ''|---|---|---|---|''
       (\<lambda>plan. ''| '' @ field plan ''id'' @ '' | '' @ field plan ''name'' @ '' | ''
          @ field plan ''type'' @ '' | '' @ or_else (get_prop plan ''updatedAt'') ''-'' @ '' |'')
       plans"

definition formatFunctionsTable :: "jsval list \<Rightarrow> runtime_error + string" where
  "formatFunctionsTable functions =
     table_of ''| ID | Name | Type | Deployed |'' ''|---|---|---|---|''
       (\<lambda>fn. ''| '' @ field fn ''id'' @ '' | '' @ field fn ''displayName'' @ '' | ''
          @ field fn ''resourceType'' @ '' | ''
          @ or_else (get_prop fn ''deployedAt'') ''Not deployed'' @ '' |'')
       functions"

definition formatAudiencesTable :: "jsval list \<Rightarrow> runtime_error + string" where
  "formatAudiencesTable audiences =
     table_of ''| ID | Name | Key | Status | Enabled |'' ''|---|---|---|---|---|''
       (\<lambda>aud. ''| '' @ field aud ''id'' @ '' | '' @ field aud ''name'' @ '' | ''
          @ field aud ''key'' @ '' | '' @ or_else (get_prop aud ''status'') ''-'' @ '' | ''
          @ yes_no aud ''enabled'' @ '' |'')
       audiences"

definition formatComputedTraitsTable :: "jsval list \<Rightarrow> runtime_error + string" where
  "formatComputedTraitsTable traits =
     table_of ''| ID | Name | Key | Status | Enabled |'' ''|---|---|---|---|---|''
       (\<lambda>trait. ''| '' @ field trait ''id'' @ '' | '' @ field trait ''name'' @ '' | ''
          @ field trait ''key'' @ '' | '' @ or_else (get_prop trait ''status'') ''-'' @ '' | ''
          @ yes_no trait ''enabled'' @ '' |'')
       traits"

definition formatTransformationsTable :: "jsval list \<Rightarrow> runtime_error + string" where
  "formatTransformationsTable transformations =
     table_of ''| ID | Name | Source ID | Enabled |'' ''|---|---|---|---|''
       (\<lambda>t. ''| '' @ field t ''id'' @ '' | '' @ field t ''name'' @ '' | ''
          @ field t ''sourceId'' @ '' | '' @ yes_no t ''enabled'' @ '' |'')
       transformations"

text \<open>\<open>String(record[k] ?? '-')\<close>\<close>

definition generic_cell :: "jsval \<Rightarrow> string \<Rightarrow> string" where
  "generic_cell record k =
     (let v = get_prop record k in if nullish v then ''-'' else to_string v)"

definition generic_row :: "string list \<Rightarrow> jsval \<Rightarrow> string" where
  "generic_row keys item = ''| '' @ join '' | '' (map (generic_cell item) keys) @ '' |''"

text \<open>
  The generic table. \<open>Object.keys\<close> throws on a first item that is \<open>null\<close> or
  \<open>undefined\<close>; a row reads its item only when there is a column to fill.
\<close>

definition formatGenericTable :: "jsval list \<Rightarrow> runtime_error + string" where
  "formatGenericTable items =
     (case items of
        [] \<Rightarrow> Inr ''_No items_''
      | first # rest \<Rightarrow>
          (case Object_keys first of
             Inl e \<Rightarrow> Inl e
           | Inr all_keys \<Rightarrow>
               (let keys = take 5 all_keys in
                if keys \<noteq> [] \<and> list_ex nullish items then Inl TypeError
                else Inr (join nl
                       ((''| '' @ join '' | '' keys @ '' |'')
                        # (''|'' @ join ''|'' (map (\<lambda>k. ''---'') keys) @ ''|'')
                        # map (generic_row keys) items)))))"

definition formatArrayAsMarkdown :: "jsval list \<Rightarrow> string \<Rightarrow> runtime_error + string" where
  "formatArrayAsMarkdown data entityType = formatGenericTable data"

text \<open>
  A paginated response is read through its two fields: the array \<open>data.data\<close>, here
  \<open>items\<close>, and \<open>data.pagination\<close> (\<open>undefined\<close> when the response has none).
  The lines pushed before the table:
\<close>

definition paginated_preamble :: "jsval list \<Rightarrow> jsval \<Rightarrow> string \<Rightarrow> string list" where
  "paginated_preamble items pagination entityType =
     (let count = string_of_nat (length items);
          total = opt_member pagination ''totalEntries''
      in [''## '' @ capitalize entityType, []]
         @ [if total \<noteq> JUndefined
            then ''**Total:** '' @ to_string total @ '' | **Showing:** '' @ count
            else ''**Showing:** '' @ count]
         @ (if truthy (opt_member pagination ''next'')
            then [''**More available:** Yes (cursor: `'' @ to_string (get_prop pagination ''next'')
                  @ ''`)'']
            else [])
         @ [[]])"


definition entity_table :: "string \<Rightarrow> jsval list \<Rightarrow> runtime_error + string" where
  "entity_table entityType items =
     (if entityType = ''sources'' then formatSourcesTable items
      else if entityType = ''destinations'' then formatDestinationsTable items
      else if entityType = ''warehouses'' then formatWarehousesTable items
      else if entityType = ''tracking-plans'' then formatTrackingPlansTable items
      else if entityType = ''functions'' then formatFunctionsTable items
      else if entityType = ''audiences'' then formatAudiencesTable items
      else if entityType = ''computed-traits'' then formatComputedTraitsTable items
      else if entityType = ''transformations'' then formatTransformationsTable items
      else formatGenericTable items)"

text \<open>The array \<open>lines\<close> at the \<open>return\<close> that is taken.\<close>

definition paginated_lines ::
  "jsval list \<Rightarrow> jsval \<Rightarrow> string \<Rightarrow> runtime_error + string list" where
  "paginated_lines items pagination entityType =
     (if items = [] then Inr (paginated_preamble items pagination entityType @ [''_No items found._''])
      else case entity_table entityType items of
             Inl e \<Rightarrow> Inl e
           | Inr table \<Rightarrow> Inr (paginated_preamble items pagination entityType @ [table]))"

definition formatPaginatedAsMarkdown ::
  "jsval list \<Rightarrow> jsval \<Rightarrow> string \<Rightarrow> runtime_error + string" where
  "formatPaginatedAsMarkdown items pagination entityType =
     (case paginated_lines items pagination entityType of
        Inl e \<Rightarrow> Inl e
      | Inr lines \<Rightarrow> Inr (join nl lines))"

text \<open>The lines one entry of \<open>Object.entries(data)\<close> pushes.\<close>

definition object_entry_lines :: "string \<times> jsval \<Rightarrow> string list" where
  "object_entry_lines entry =
     (let key = fst entry; v = snd entry in
      if v = JNull \<or> v = JUndefined then []
      else if typeof_object v
        then [''**'' @ formatKey key @ '':**'', ''```json'', json_ser ''  '' [] v, ''```'']
        else [''**'' @ formatKey key @ '':** '' @ to_string v])"

definition formatObjectAsMarkdown :: "(string \<times> jsval) list \<Rightarrow> string \<Rightarrow> string" where
  "formatObjectAsMarkdown data entityType =
     join nl ([''## '' @ capitalize (strip_final_s entityType), []]
              @ concat (map object_entry_lines data))"

text \<open>
  \<open>isPaginatedResponse\<close>: an object with a property \<open>data\<close> that is an array.
\<close>

fun isPaginatedResponse :: "jsval \<Rightarrow> bool" where
  "isPaginatedResponse (JObj ps) =
     (case map_of ps ''data'' of Some (JArr items) \<Rightarrow> True | _ \<Rightarrow> False)"
| "isPaginatedResponse v = False"

text \<open>The array \<open>data.data\<close> of a paginated response.\<close>

definition response_items :: "jsval \<Rightarrow> jsval list" where
  "response_items data = (case get_prop data ''data'' of JArr items \<Rightarrow> items | _ \<Rightarrow> [])"

definition formatAsMarkdown :: "jsval \<Rightarrow> string \<Rightarrow> runtime_error + string" where
  "formatAsMarkdown data entityType =
     (if isPaginatedResponse data
      then formatPaginatedAsMarkdown (response_items data) (get_prop data ''pagination'') entityType
      else case data of
             JArr xs \<Rightarrow> formatArrayAsMarkdown xs entityType
           | JObj ps \<Rightarrow> Inr (formatObjectAsMarkdown ps entityType)
           | v \<Rightarrow> Inr (to_string v))"

datatype response_format = Json | Markdown

definition formatResponse :: "jsval \<Rightarrow> response_format \<Rightarrow> string \<Rightarrow> runtime_error + tool_response" where
  "formatResponse data format entityType =
     (if format = Markdown
      then (case formatAsMarkdown data entityType of
              Inl e \<Rightarrow> Inl e
            | Inr text \<Rightarrow> Inr \<lparr>content = [Some text], isError = None\<rparr>)
      else Inr \<lparr>content = [JSON_stringify2 data], isError = None\<rparr>)"

section \<open>The API client\<close>

record tenant_credentials =
  writeKey :: "string option"
  accessToken :: "string option"
  trackingBaseUrl :: "string option"
  publicApiBaseUrl :: "string option"

definition TRACKING_API_BASE_URL :: string where
  "TRACKING_API_BASE_URL = ''https://api.segment.io/v1''"

definition PUBLIC_API_BASE_URL :: string where
  "PUBLIC_API_BASE_URL = ''https://api.segmentapis.com''"

text \<open>An optional string is falsy when it is left out and when it is empty.\<close>

definition present :: "string option \<Rightarrow> bool" where
  "present x = (case x of None \<Rightarrow> False | Some s \<Rightarrow> s \<noteq> [])"

definition str_or :: "string option \<Rightarrow> string \<Rightarrow> string" where
  "str_or x d = (case x of None \<Rightarrow> d | Some s \<Rightarrow> if s = [] then d else s)"

record http_request =
  req_url :: string
  req_method :: "string option"
  req_headers :: "(string \<times> string) list"
  req_body :: "string option"

record http_response =
  status :: nat
  resp_headers :: "(string \<times> string) list"
  resp_body :: string

text \<open>
  The collaborators of the client: \<open>fetch\<close>, which answers a request or rejects with
  an \<open>Error\<close> of the platform, and \<open>JSON.parse\<close>, which returns the value a text
  denotes or throws its \<open>SyntaxError\<close>.
\<close>

record runtime =
  fetch :: "http_request \<Rightarrow> js_error + http_response"
  JSON_parse :: "string \<Rightarrow> js_error + jsval"

record request_init =
  init_method :: "string option"
  init_headers :: "(string \<times> string) list option"
  init_body :: "string option"

definition no_options :: request_init where
  "no_options = \<lparr>init_method = None, init_headers = None, init_body = None\<rparr>"

subsection \<open>\<open>btoa\<close>\<close>

definition base64_chars :: string where
  "base64_chars = ''ABCDEFGHIJKLMNOPQRSTUVWXYZabcdefghijklmnopqrstuvwxyz0123456789+/''"

fun base64 :: "nat list \<Rightarrow> string" where
  "base64 [] = []"
| "base64 [a] = [base64_chars ! (a div 4), base64_chars ! ((a mod 4) * 16), CHR ''='', CHR ''='']"
| "base64 [a, b] =
     [base64_chars ! (a div 4), base64_chars ! ((a mod 4) * 16 + b div 16),
      base64_chars ! ((b mod 16) * 4), CHR ''='']"
| "base64 (a # b # c # rest) =
     [base64_chars ! (a div 4), base64_chars ! ((a mod 4) * 16 + b div 16),
      base64_chars ! ((b mod 16) * 4 + c div 64), base64_chars ! (c mod 64)] @ base64 rest"

definition btoa :: "string \<Rightarrow> string" where
  "btoa s = base64 (map of_char s)"

subsection \<open>Request helpers\<close>

definition getTrackingHeaders :: "tenant_credentials \<Rightarrow> thrown + (string \<times> string) list" where
  "getTrackingHeaders credentials =
     (if \<not> present (writeKey credentials)
      then Inl (ApiErr (new_MissingCredentialsError ''X-Segment-Write-Key''))
      else Inr [(''Authorization'', ''Basic '' @ btoa (str_or (writeKey credentials) [] @ '':'')),
                (''Content-Type'', ''application/json'')])"

definition getPublicApiHeaders :: "tenant_credentials \<Rightarrow> thrown + (string \<times> string) list" where
  "getPublicApiHeaders credentials =
     (if \<not> present (accessToken credentials)
      then Inl (ApiErr (new_MissingCredentialsError ''X-Segment-Access-Token''))
      else Inr [(''Authorization'', ''Bearer '' @ str_or (accessToken credentials) []),
                (''Content-Type'', ''application/json'')])"

text \<open>Object spread \<open>{...a, ...b}\<close>: a property of \<open>b\<close> replaces that of \<open>a\<close> in place.\<close>

definition obj_set :: "'k \<Rightarrow> 'v \<Rightarrow> ('k \<times> 'v) list \<Rightarrow> ('k \<times> 'v) list" where
  "obj_set k v ps =
     (if k \<in> set (map fst ps) then map (\<lambda>p. if fst p = k then (k, v) else p) ps
      else ps @ [(k, v)])"

definition obj_spread :: "('k \<times> 'v) list \<Rightarrow> ('k \<times> 'v) list \<Rightarrow> ('k \<times> 'v) list" where
  "obj_spread a b = foldl (\<lambda>acc p. obj_set (fst p) (snd p) acc) a b"

text \<open>\<open>Headers.get\<close>: names compare without case, several values are joined.\<close>

definition headers_get :: "(string \<times> string) list \<Rightarrow> string \<Rightarrow> string option" where
  "headers_get hs n =
     (let vs = map snd (filter (\<lambda>p. toLowerCase (fst p) = toLowerCase n) hs)
      in if vs = [] then None else Some (join '', '' vs))"

definition response_ok :: "http_response \<Rightarrow> bool" where
  "response_ok r = (200 \<le> status r \<and> status r \<le> 299)"

text \<open>\<open>retryAfter ? parseInt(retryAfter, 10) : 60\<close>\<close>

definition retry_after_seconds :: "string option \<Rightarrow> number" where
  "retry_after_seconds retryAfter =
     (case retryAfter of
        None \<Rightarrow> Num 60
      | Some s \<Rightarrow> if s = [] then Num 60 else parseInt10 s)"

text \<open>The first truthy value of \<open>a || b || ...\<close>, the last one when none is.\<close>

fun first_truthy :: "jsval list \<Rightarrow> jsval \<Rightarrow> jsval" where
  "first_truthy [] d = d"
| "first_truthy (v # vs) d = (if truthy v then v else first_truthy vs d)"

text \<open>
  The message of a failed response: the \<open>try\<close> block parses the body and picks a field;
  a \<open>SyntaxError\<close> of the parser, and the \<open>TypeError\<close> of reading a field of \<open>null\<close>,
  are caught and leave the default message.
\<close>

definition tracking_error_message :: "runtime \<Rightarrow> http_response \<Rightarrow> string" where
  "tracking_error_message rt response =
     (let dflt = ''Tracking API error: '' @ string_of_nat (status response) in
      case JSON_parse rt (resp_body response) of
        Inl e \<Rightarrow> dflt
      | Inr errorJson \<Rightarrow>
          if nullish errorJson then dflt
          else to_string (first_truthy
                 [get_prop errorJson ''message'', get_prop errorJson ''error''] (JStr dflt)))"

definition public_error_message :: "runtime \<Rightarrow> http_response \<Rightarrow> string" where
  "public_error_message rt response =
     (let dflt = ''Public API error: '' @ string_of_nat (status response) in
      case JSON_parse rt (resp_body response) of
        Inl e \<Rightarrow> dflt
      | Inr errorJson \<Rightarrow>
          if nullish errorJson then dflt
          else to_string (first_truthy
                 [opt_member (opt_member (get_prop errorJson ''errors'') ''0'') ''message'',
                  get_prop errorJson ''message'', get_prop errorJson ''error''] (JStr dflt)))"

text \<open>\<open>response.json()\<close>\<close>

definition response_json :: "runtime \<Rightarrow> http_response \<Rightarrow> thrown + jsval" where
  "response_json rt response =
     (case JSON_parse rt (resp_body response) of Inl e \<Rightarrow> Inl (JsErr e) | Inr v \<Rightarrow> Inr v)"

text \<open>What \<open>trackingRequest\<close> does with the response once \<open>fetch\<close> has answered.\<close>

definition tracking_response :: "runtime \<Rightarrow> http_response \<Rightarrow> thrown + jsval" where
  "tracking_response rt response =
     (if status response = 429
      then Inl (ApiErr (new_RateLimitError ''Rate limit exceeded''
                  (retry_after_seconds (headers_get (resp_headers response) ''Retry-After''))))
      else if status response = 401 \<or> status response = 403
      then Inl (ApiErr (new_AuthenticationError ''Authentication failed. Check your write key.''))
      else if \<not> response_ok response
      then Inl (ApiErr (new_SegmentApiError (tracking_error_message rt response)
                  (Some (status response)) None None))
      else response_json rt response)"

definition public_response :: "runtime \<Rightarrow> http_response \<Rightarrow> thrown + jsval" where
  "public_response rt response =
     (if status response = 429
      then Inl (ApiErr (new_RateLimitError ''Rate limit exceeded''
                  (retry_after_seconds (headers_get (resp_headers response) ''Retry-After''))))
      else if status response = 401 \<or> status response = 403
      then Inl (ApiErr (new_AuthenticationError ''Authentication failed. Check your access token.''))
      else if \<not> response_ok response
      then Inl (ApiErr (new_SegmentApiError (public_error_message rt response)
                  (Some (status response)) None None))
      else if status response = 204 then Inr JUndefined
      else response_json rt response)"

text \<open>
  The two request helpers. The state threaded through is the list of the requests handed
  to \<open>fetch\<close> so far: the headers are computed while the argument of \<open>fetch\<close> is built,
  so an error thrown there leaves the list as it was.
\<close>

definition trackingRequest ::
  "runtime \<Rightarrow> tenant_credentials \<Rightarrow> string \<Rightarrow> jsval \<Rightarrow> http_request list
     \<Rightarrow> (thrown + jsval) \<times> http_request list" where
  "trackingRequest rt credentials endpoint body sent =
     (let url = str_or (trackingBaseUrl credentials) TRACKING_API_BASE_URL @ endpoint in
      case getTrackingHeaders credentials of
        Inl e \<Rightarrow> (Inl e, sent)
      | Inr headers \<Rightarrow>
          (let request = \<lparr>req_url = url, req_method = Some ''POST'', req_headers = headers,
                           req_body = JSON_stringify body\<rparr>
           in case fetch rt request of
                Inl e \<Rightarrow> (Inl (JsErr e), sent @ [request])
              | Inr response \<Rightarrow> (tracking_response rt response, sent @ [request])))"

definition publicApiRequest ::
  "runtime \<Rightarrow> tenant_credentials \<Rightarrow> string \<Rightarrow> request_init \<Rightarrow> http_request list
     \<Rightarrow> (thrown + jsval) \<times> http_request list" where
  "publicApiRequest rt credentials endpoint options sent =
     (let url = str_or (publicApiBaseUrl credentials) PUBLIC_API_BASE_URL @ endpoint in
      case getPublicApiHeaders credentials of
        Inl e \<Rightarrow> (Inl e, sent)
      | Inr headers \<Rightarrow>
          (let request = \<lparr>req_url = url, req_method = init_method options,
                           req_headers = obj_spread headers
                             (case init_headers options of None \<Rightarrow> [] | Some h \<Rightarrow> h),
                           req_body = init_body options\<rparr>
           in case fetch rt request of
                Inl e \<Rightarrow> (Inl (JsErr e), sent @ [request])
              | Inr response \<Rightarrow> (public_response rt response, sent @ [request])))"

subsection \<open>Query strings\<close>

text \<open>
  \<open>URLSearchParams\<close>: the list of its name-value pairs. \<open>set\<close> overwrites the first
  pair of that name and removes the others, or appends a new pair.
\<close>

fun remove_name :: "string \<Rightarrow> (string \<times> string) list \<Rightarrow> (string \<times> string) list" where
  "remove_name k [] = []"
| "remove_name k (p # ps) = (if fst p = k then remove_name k ps else p # remove_name k ps)"

fun params_set :: "string \<Rightarrow> string \<Rightarrow> (string \<times> string) list \<Rightarrow> (string \<times> string) list" where
  "params_set k v [] = [(k, v)]"
| "params_set k v (p # ps) =
     (if fst p = k then (k, v) # remove_name k ps else p # params_set k v ps)"

text \<open>
  \<open>toString\<close> of \<open>URLSearchParams\<close>: the \<open>application/x-www-form-urlencoded\<close>
  serialiser. Letters, digits and \<open>* - . _\<close> stay, a space becomes \<open>+\<close>, any other
  byte is written \<open>%XX\<close>.
\<close>

definition upper_hex_chars :: string where
  "upper_hex_chars = ''0123456789ABCDEF''"

definition urlencode_char :: "char \<Rightarrow> string" where
  "urlencode_char c =
     (if c = CHR '' '' then ''+''
      else if c \<in> set lower_letters \<or> c \<in> set upper_letters \<or> c \<in> set digit_chars
              \<or> c \<in> set ''*-._''
      then [c]
      else [CHR ''%'', upper_hex_chars ! ((of_char c :: nat) div 16),
            upper_hex_chars ! ((of_char c :: nat) mod 16)])"

definition urlencode :: "string \<Rightarrow> string" where
  "urlencode s = concat (map urlencode_char s)"

definition params_toString :: "(string \<times> string) list \<Rightarrow> string" where
  "params_toString qp = join ''&'' (map (\<lambda>p. urlencode (fst p) @ ''='' @ urlencode (snd p)) qp)"

text \<open>The loop over \<open>Object.entries(params)\<close>.\<close>

fun collect_params :: "(string \<times> jsval) list \<Rightarrow> (string \<times> string) list \<Rightarrow> (string \<times> string) list" where
  "collect_params [] queryParams = queryParams"
| "collect_params (entry # entries) queryParams =
     (if snd entry \<noteq> JUndefined \<and> snd entry \<noteq> JNull
      then collect_params entries (params_set (fst entry) (to_string (snd entry)) queryParams)
      else collect_params entries queryParams)"

definition buildQueryString :: "(string \<times> jsval) list option \<Rightarrow> string" where
  "buildQueryString params =
     (case params of
        None \<Rightarrow> []
      | Some entries \<Rightarrow>
          (let qs = params_toString (collect_params entries [])
           in if qs \<noteq> [] then ''?'' @ qs else []))"

definition listSources ::
  "runtime \<Rightarrow> tenant_credentials \<Rightarrow> (string \<times> jsval) list option \<Rightarrow> http_request list
     \<Rightarrow> (thrown + jsval) \<times> http_request list" where
  "listSources rt credentials params sent =
     publicApiRequest rt credentials (''/sources'' @ buildQueryString params) no_options sent"

section \<open>The specification's wording, and inputs used below\<close>

text \<open>
  \<open>isRetryable\<close> as the specification words it: true for a rate-limit error and for
  another \<open>Error\<close> whose message tells of the network, a timeout or a connection reset.
\<close>

definition spec_isRetryable :: "thrown \<Rightarrow> bool" where
  "spec_isRetryable err =
     (case err of
        ApiErr e \<Rightarrow> cls e = RateLimitError
      | JsErr e \<Rightarrow> str_includes (err_message e) ''network''
                  \<or> str_includes (err_message e) ''timeout''
                  \<or> str_includes (err_message e) ''ECONNRESET''
      | NonError v \<Rightarrow> False)"

text \<open>A result that is an error of kind \<open>Generic\<close>.\<close>

definition is_generic :: "thrown + jsval \<Rightarrow> bool" where
  "is_generic result = (case result of Inl (ApiErr e) \<Rightarrow> cls e = SegmentApiError | _ \<Rightarrow> False)"

text \<open>
  The heading of a single object as the specification words it: the entity type with a
  final \<open>s\<close> removed, its first character capitalised.
\<close>

definition spec_singular :: "string \<Rightarrow> string" where
  "spec_singular kind =
     (case rev kind of [] \<Rightarrow> [] | c # r \<Rightarrow> if c = CHR ''s'' then rev r else kind)"

definition spec_capital :: "string \<Rightarrow> string" where
  "spec_capital s = (case s of [] \<Rightarrow> [] | c # cs \<Rightarrow> toUpperCase_char c # cs)"

text \<open>A space put before each capital letter of a text.\<close>

fun spec_spaced :: "string \<Rightarrow> string" where
  "spec_spaced [] = []"
| "spec_spaced (c # cs) =
     (if is_upper c then CHR '' '' # c # spec_spaced cs else c # spec_spaced cs)"

text \<open>
  The display form of a field name as the specification words it: a space before each
  internal capital, then the first character capitalised.
\<close>

definition spaced_title :: "string \<Rightarrow> string" where
  "spaced_title key = spec_capital (case key of [] \<Rightarrow> [] | c # cs \<Rightarrow> c # spec_spaced cs)"

text \<open>
  The display form with the trimming added: a space before each capital, the first
  character capitalised, surrounding white space removed.
\<close>

definition trimmed_title :: "string \<Rightarrow> string" where
  "trimmed_title key = trim (spec_capital (spec_spaced key))"

text \<open>
  The lines of one field as the specification words them, for a given display form of
  the name: nothing for \<open>null\<close> and \<open>undefined\<close>, a labelled fenced block for an
  object or array, one line for a scalar. Then the whole text of an object.
\<close>

definition field_lines_with :: "(string \<Rightarrow> string) \<Rightarrow> string \<times> jsval \<Rightarrow> string list" where
  "field_lines_with label entry =
     (case snd entry of
        JNull \<Rightarrow> []
      | JUndefined \<Rightarrow> []
      | JObj ps \<Rightarrow> [''**'' @ label (fst entry) @ '':**'', ''```json'',
                   json_ser ''  '' [] (JObj ps), ''```'']
      | JArr xs \<Rightarrow> [''**'' @ label (fst entry) @ '':**'', ''```json'',
                   json_ser ''  '' [] (JArr xs), ''```'']
      | v \<Rightarrow> [''**'' @ label (fst entry) @ '':** '' @ to_string v])"

definition object_text_with ::
  "(string \<Rightarrow> string) \<Rightarrow> (string \<times> jsval) list \<Rightarrow> string \<Rightarrow> string" where
  "object_text_with label data kind =
     join nl ([''## '' @ spec_capital (spec_singular kind), []]
              @ concat (map (field_lines_with label) data))"





text \<open>A text between double quotes.\<close>

definition dq :: "string \<Rightarrow> string" where
  "dq s = CHR 0x22 # s @ [CHR 0x22]"

text \<open>The \<open>SyntaxError\<close> a parser throws at the text \<open><html>\<close>.\<close>

definition html_syntax_error :: js_error where
  "html_syntax_error =
     \<lparr>err_name = ''SyntaxError'',
      err_message = ''Unexpected token < in JSON at position 0'',
      err_stack = None\<rparr>"

text \<open>
  A runtime in which every request is answered with the given response and the parser
  rejects the text it is given, as a JSON parser does the bodies used below.
\<close>

definition answering :: "http_response \<Rightarrow> runtime" where
  "answering response =
     \<lparr>fetch = (\<lambda>request. Inr response), JSON_parse = (\<lambda>text. Inl html_syntax_error)\<rparr>"

definition html_page :: "nat \<Rightarrow> http_response" where
  "html_page st = \<lparr>status = st, resp_headers = [], resp_body = ''<html>''\<rparr>"

text \<open>A 429 response, with the given \<open>Retry-After\<close> header when there is one.\<close>

definition rate_limited :: "string option \<Rightarrow> http_response" where
  "rate_limited retryAfter =
     \<lparr>status = 429,
      resp_headers = (case retryAfter of None \<Rightarrow> [] | Some v \<Rightarrow> [(''Retry-After'', v)]),
      resp_body = []\<rparr>"

definition both_credentials :: tenant_credentials where
  "both_credentials =
     \<lparr>writeKey = Some ''key'', accessToken = Some ''token'', trackingBaseUrl = None,
      publicApiBaseUrl = None\<rparr>"

definition no_credentials :: tenant_credentials where
  "no_credentials =
     \<lparr>writeKey = None, accessToken = Some [], trackingBaseUrl = None, publicApiBaseUrl = None\<rparr>"

definition widget :: "(string \<times> jsval) list" where
  "widget =
     [(''id'', JStr ''abc''), (''createdAt'', JStr ''2024-01-01''),
      (''workspaceID'', JNum (Num 7)), (''Name'', JStr ''Widget''), (''enabled'', JBool True),
      (''deletedAt'', JNull), (''labels'', JArr []), (''nested'', JObj [(''x'', JNum (Num 1))])]"

definition empty_sources :: jsval where
  "empty_sources =
     JObj [(''data'', JArr []), (''pagination'', JObj [(''totalEntries'', JNum (Num 0))])]"


section \<open>Helper facts\<close>

lemmas ctor_defs = new_SegmentApiError_def new_RateLimitError_def new_AuthenticationError_def
  new_NotFoundError_def new_ValidationError_def new_MissingCredentialsError_def

lemmas table_defs = formatSourcesTable_def formatDestinationsTable_def formatWarehousesTable_def
  formatTrackingPlansTable_def formatFunctionsTable_def formatAudiencesTable_def
  formatComputedTraitsTable_def formatTransformationsTable_def

lemmas parseInt_defs = parseInt10_def trimStart_def is_space_def is_digit_def digit_value_def
  digit_chars_def digits_value_def

lemma string_of_nat_0: "string_of_nat 0 = ''0''"
  by (simp add: string_of_nat.simps digit_chars_def)

subsection \<open>The runtime model on known values\<close>

lemma btoa_example: "btoa ''key:'' = ''a2V5Og==''"
  by code_simp

lemma parseInt10_examples:
  "parseInt10 ''  -42abc'' = Num (- 42)"
  "parseInt10 ''1.5'' = Num 1"
  "parseInt10 ''soon'' = NaN"
  "parseInt10 [] = NaN"
  by code_simp+

lemma formatKey_examples:
  "formatKey ''camelCaseID'' = ''Camel Case I D''"
  "formatKey ''Name'' = ''Name''"
  "formatKey ''id'' = ''Id''"
  by code_simp+

lemma tracking_headers_example:
  "getTrackingHeaders both_credentials
     = Inr [(''Authorization'', ''Basic a2V5Og==''), (''Content-Type'', ''application/json'')]"
  by code_simp

lemma JSON_stringify_examples:
  "JSON_stringify (JObj [(''a'', JNum (Num 1)), (''u'', JUndefined), (''b'', JArr [JStr ''x'', JUndefined])])
     = Some (''{'' @ quote ''a'' @ '':1,'' @ quote ''b'' @ '':['' @ quote ''x'' @ '',null]}'')"
  "JSON_stringify2 (JObj [(''a'', JNum NaN), (''b'', JArr [])])
     = Some (''{'' @ nl @ ''  '' @ quote ''a'' @ '': null,'' @ nl @ ''  '' @ quote ''b'' @ '': []'' @ nl @ ''}'')"
  by code_simp+

subsection \<open>Responses and tables\<close>

lemma public_response_class:
  "public_response rt response = Inl (ApiErr e) \<Longrightarrow> retryable e = (cls e = RateLimitError)"
  by (auto simp: public_response_def response_json_def ctor_defs split: if_splits sum.splits)

lemma tracking_response_class:
  "tracking_response rt response = Inl (ApiErr e) \<Longrightarrow> retryable e = (cls e = RateLimitError)"
  by (auto simp: tracking_response_def response_json_def ctor_defs split: if_splits sum.splits)

lemma trackingRequest_class:
  "fst (trackingRequest rt credentials endpoint body sent) = Inl (ApiErr e) \<Longrightarrow>
   retryable e = (cls e = RateLimitError)"
  using tracking_response_class [of rt _ e]
  by (auto simp: trackingRequest_def getTrackingHeaders_def Let_def ctor_defs
      split: if_splits sum.splits)

lemma publicApiRequest_class:
  "fst (publicApiRequest rt credentials endpoint options sent) = Inl (ApiErr e) \<Longrightarrow>
   retryable e = (cls e = RateLimitError)"
  using public_response_class [of rt _ e]
  by (auto simp: publicApiRequest_def getPublicApiHeaders_def Let_def ctor_defs
      split: if_splits sum.splits)

lemma isRetryableError_by_class:
  "(\<And>e. err = ApiErr e \<Longrightarrow> retryable e = (cls e = RateLimitError)) \<Longrightarrow>
   isRetryableError err = spec_isRetryable err"
  by (cases err) (simp_all add: spec_isRetryable_def)

text \<open>The parts of the \<open>Retry-After\<close> rule that hold: no header and an empty header
  give 60, a header of decimal digits gives their value.\<close>

lemma retry_after_absent: "retry_after_seconds None = Num 60 \<and> retry_after_seconds (Some []) = Num 60"
  by (simp add: retry_after_seconds_def)

lemma retry_after_digits:
  assumes "ds \<noteq> []" and "list_all is_digit ds"
  shows "retry_after_seconds (Some ds) = Num (int (digits_value ds))"
proof -
  from assms obtain d ds' where ds: "ds = d # ds'" and d: "is_digit d"
    by (cases ds) auto
  have nsp: "\<not> is_space d" and nsign: "d \<noteq> CHR ''-''" "d \<noteq> CHR ''+''"
    using d by (auto simp: is_digit_def digit_value_def digit_chars_def is_space_def split: if_splits)
  have tw: "takeWhile is_digit ds = ds"
    using assms(2) by (simp add: takeWhile_eq_all_conv list_all_iff)
  show ?thesis
    using ds nsp nsign tw assms(1)
    by (simp add: retry_after_seconds_def parseInt10_def trimStart_def Let_def)
qed

text \<open>A table, typed or generic, begins with the bar of its header row.\<close>

lemma entity_table_starts_with_bar:
  "items \<noteq> [] \<Longrightarrow> entity_table entityType items = Inr t \<Longrightarrow> take 1 t = ''|''"
  by (cases items)
     (auto simp: entity_table_def table_defs table_of_def formatGenericTable_def Let_def
        split: if_splits sum.splits)







subsection \<open>Characters and trimming\<close>

lemma upper_not_lower: "c \<in> set upper_letters \<Longrightarrow> c \<notin> set lower_letters"
  by (auto simp: upper_letters_def lower_letters_def)

lemma toUpperCase_char_upper: "is_upper c \<Longrightarrow> toUpperCase_char c = c"
proof -
  assume "is_upper c"
  then have "c \<notin> fst ` set (zip lower_letters upper_letters)"
    using upper_not_lower [of c] by (auto simp: is_upper_def dest: set_zip_leftD)
  then have "map_of (zip lower_letters upper_letters) c = None"
    by (simp add: map_of_eq_None_iff)
  then show ?thesis by (simp add: toUpperCase_char_def)
qed

lemma is_upper_not_space: "is_upper c \<Longrightarrow> \<not> is_space c"
  by (auto simp: is_upper_def is_space_def upper_letters_def)

lemma toUpperCase_char_cases: "toUpperCase_char c = c \<or> is_upper (toUpperCase_char c)"
proof (cases "map_of (zip lower_letters upper_letters) c")
  case None
  then show ?thesis by (simp add: toUpperCase_char_def)
next
  case (Some u)
  then have "u \<in> set upper_letters"
    by (auto dest!: map_of_SomeD set_zip_rightD)
  with Some show ?thesis by (simp add: toUpperCase_char_def is_upper_def)
qed

lemma toUpperCase_char_not_space: "\<not> is_space c \<Longrightarrow> \<not> is_space (toUpperCase_char c)"
  using toUpperCase_char_cases [of c] is_upper_not_space by auto

lemma is_space_blank: "is_space (CHR '' '')"
  by (simp add: is_space_def)

lemma toUpperCase_char_blank: "toUpperCase_char (CHR '' '') = CHR '' ''"
  by (simp add: toUpperCase_char_def lower_letters_def upper_letters_def)

lemma line_terminator_space: "c = CHR 0x0A \<or> c = CHR 0x0D \<Longrightarrow> is_space c"
  by (auto simp: is_space_def)

lemma trim_id: "xs \<noteq> [] \<Longrightarrow> \<not> is_space (hd xs) \<Longrightarrow> \<not> is_space (last xs) \<Longrightarrow> trim xs = xs"
proof -
  assume a: "xs \<noteq> []" "\<not> is_space (hd xs)" "\<not> is_space (last xs)"
  have 1: "dropWhile is_space xs = xs" using a by (simp add: dropWhile_eq_self_iff)
  have 2: "dropWhile is_space (rev xs) = rev xs" using a by (simp add: dropWhile_eq_self_iff hd_rev)
  show ?thesis by (simp add: trim_def 1 2)
qed

lemma trim_self_hd:
  assumes "trim xs = xs" and "xs \<noteq> []"
  shows "\<not> is_space (hd xs)"
proof
  assume sp: "is_space (hd xs)"
  from assms(2) obtain a ys where xs: "xs = a # ys" by (cases xs) auto
  have "length (trim xs) \<le> length (dropWhile is_space xs)"
    unfolding trim_def using length_dropWhile_le [of is_space "rev (dropWhile is_space xs)"] by simp
  also have "\<dots> \<le> length ys"
    using sp xs length_dropWhile_le [of is_space ys] by simp
  finally show False using assms(1) xs by simp
qed

lemma trim_self_last:
  assumes "trim xs = xs" and "xs \<noteq> []"
  shows "\<not> is_space (last xs)"
proof -
  have "dropWhile is_space xs = xs"
    using trim_self_hd [OF assms] by (simp add: dropWhile_eq_self_iff)
  with assms(1) have "rev (dropWhile is_space (rev xs)) = xs" by (simp add: trim_def)
  then have "dropWhile is_space (rev xs) = rev xs" by (metis rev_rev_ident)
  then show ?thesis using assms(2) by (simp add: dropWhile_eq_self_iff hd_rev)
qed

lemma space_capitals_Cons:
  "space_capitals (c # cs) = (if is_upper c then [CHR '' '', c] else [c]) @ space_capitals cs"
  by (simp add: space_capitals_def)

lemma last_space_capitals: "cs \<noteq> [] \<Longrightarrow> last (space_capitals cs) = last cs"
  by (cases cs rule: rev_cases) (auto simp: space_capitals_def)

lemma space_capitals_Nil_iff: "space_capitals cs = [] \<longleftrightarrow> cs = []"
  by (cases cs) (auto simp: space_capitals_def)

text \<open>On a field name without surrounding white space \<open>formatKey\<close> leaves the first
  character without a space before it.\<close>

lemma formatKey_internal:
  assumes "trim key = key"
  shows "formatKey key = capitalize (case key of [] \<Rightarrow> [] | c # cs \<Rightarrow> c # space_capitals cs)"
proof (cases key)
  case Nil
  then show ?thesis by (simp add: formatKey_def space_capitals_def trim_def)
next
  case (Cons c cs)
  have hd_ok: "\<not> is_space c" using trim_self_hd [OF assms] Cons by simp
  have last_ok: "\<not> is_space (last (c # cs))" using trim_self_last [OF assms] Cons by simp
  have tail_ok: "\<not> is_space (last (x # space_capitals cs))" if "\<not> is_space x" for x
  proof (cases "cs = []")
    case True
    then show ?thesis using that by (simp add: space_capitals_def)
  next
    case False
    then show ?thesis using last_ok by (simp add: last_space_capitals space_capitals_Nil_iff)
  qed
  show ?thesis
  proof (cases "is_upper c")
    case True
    have "upper_first (space_capitals key) = CHR '' '' # c # space_capitals cs"
      using True Cons by (simp add: space_capitals_Cons toUpperCase_char_blank)
    moreover have "trim (CHR '' '' # c # space_capitals cs) = c # space_capitals cs"
    proof -
      have "trim (CHR '' '' # c # space_capitals cs) = trim (c # space_capitals cs)"
        by (simp add: trim_def is_space_blank)
      also have "\<dots> = c # space_capitals cs"
        using hd_ok tail_ok [of c] by (intro trim_id) simp_all
      finally show ?thesis .
    qed
    ultimately show ?thesis
      using True Cons by (simp add: formatKey_def toUpperCase_char_upper)
  next
    case False
    have nlt: "\<not> (c = CHR 0x0A \<or> c = CHR 0x0D)" using hd_ok line_terminator_space by blast
    have up_ok: "\<not> is_space (toUpperCase_char c)" using hd_ok by (rule toUpperCase_char_not_space)
    have "upper_first (space_capitals key) = toUpperCase_char c # space_capitals cs"
      using False Cons nlt by (simp add: space_capitals_Cons)
    moreover have "trim (toUpperCase_char c # space_capitals cs) = toUpperCase_char c # space_capitals cs"
      using up_ok tail_ok [of "toUpperCase_char c"] by (intro trim_id) simp_all
    ultimately show ?thesis
      using Cons by (simp add: formatKey_def)
  qed
qed

text \<open>The code's string functions are the specification's.\<close>

lemma strip_final_s_spec: "strip_final_s s = spec_singular s"
  by (cases s rule: rev_cases) (simp_all add: strip_final_s_def spec_singular_def)

lemma capitalize_spec: "capitalize s = spec_capital s"
  by (cases s) (simp_all add: spec_capital_def)

lemma space_capitals_spec: "space_capitals key = spec_spaced key"
proof (induction key)
  case Nil
  show ?case by (simp add: space_capitals_def)
next
  case (Cons c cs)
  then show ?case by (simp add: space_capitals_Cons)
qed

lemma toUpperCase_char_line_terminator:
  "toUpperCase_char (CHR 0x0A) = CHR 0x0A" "toUpperCase_char (CHR 0x0D) = CHR 0x0D"
  by (simp_all add: toUpperCase_char_def lower_letters_def upper_letters_def)

lemma upper_first_capitalize: "upper_first s = capitalize s"
  by (cases s) (auto simp: toUpperCase_char_line_terminator)

lemma formatKey_trimmed_title: "formatKey key = trimmed_title key"
  by (simp add: formatKey_def trimmed_title_def upper_first_capitalize capitalize_spec
        space_capitals_spec)

lemma trimmed_title_spaced_title:
  assumes "trim key = key"
  shows "trimmed_title key = spaced_title key"
proof -
  have "trimmed_title key = formatKey key"
    by (simp only: formatKey_trimmed_title)
  also have "\<dots> = capitalize (case key of [] \<Rightarrow> [] | c # cs \<Rightarrow> c # space_capitals cs)"
    using assms by (rule formatKey_internal)
  also have "\<dots> = spaced_title key"
    by (simp only: spaced_title_def capitalize_spec space_capitals_spec)
  finally show ?thesis .
qed

lemma object_entry_lines_spec:
  "object_entry_lines entry = field_lines_with trimmed_title entry"
  by (cases "snd entry")
     (simp_all add: object_entry_lines_def field_lines_with_def formatKey_trimmed_title Let_def
        del: json_ser.simps)

lemma formatObjectAsMarkdown_spec:
  "formatObjectAsMarkdown data entityType = object_text_with trimmed_title data entityType"
proof -
  have "map object_entry_lines data = map (field_lines_with trimmed_title) data"
    by (simp add: object_entry_lines_spec)
  then show ?thesis
    by (simp only: formatObjectAsMarkdown_def object_text_with_def strip_final_s_spec
          capitalize_spec)
qed

lemma field_lines_with_cong:
  "label (fst entry) = label' (fst entry) \<Longrightarrow>
   field_lines_with label entry = field_lines_with label' entry"
  by (cases "snd entry") (simp_all add: field_lines_with_def del: json_ser.simps)

lemma object_text_with_trimmed_keys:
  assumes "list_all (\<lambda>entry. trim (fst entry) = fst entry) data"
  shows "object_text_with trimmed_title data kind = object_text_with spaced_title data kind"
proof -
  have "field_lines_with trimmed_title entry = field_lines_with spaced_title entry"
    if "entry \<in> set data" for entry
  proof -
    have "trim (fst entry) = fst entry" using assms that by (simp add: list_all_iff)
    then have "trimmed_title (fst entry) = spaced_title (fst entry)"
      by (rule trimmed_title_spaced_title)
    then show ?thesis by (rule field_lines_with_cong)
  qed
  then have "map (field_lines_with trimmed_title) data = map (field_lines_with spaced_title) data"
    by simp
  then show ?thesis by (simp only: object_text_with_def)
qed

subsection \<open>Query parameters\<close>

lemma params_set_fresh: "k \<notin> fst ` set qp \<Longrightarrow> params_set k v qp = qp @ [(k, v)]"
  by (induction qp) auto

lemma collect_params_distinct:
  "distinct (map fst entries) \<Longrightarrow> fst ` set entries \<inter> fst ` set acc = {} \<Longrightarrow>
   collect_params entries acc =
     acc @ map (\<lambda>p. (fst p, to_string (snd p)))
             (filter (\<lambda>p. snd p \<noteq> JUndefined \<and> snd p \<noteq> JNull) entries)"
proof (induction entries arbitrary: acc)
  case Nil
  then show ?case by simp
next
  case (Cons e es)
  show ?case
  proof (cases "snd e \<noteq> JUndefined \<and> snd e \<noteq> JNull")
    case True
    have fresh: "fst e \<notin> fst ` set acc" using Cons.prems(2) by auto
    have "fst ` set es \<inter> fst ` set (acc @ [(fst e, to_string (snd e))]) = {}"
      using Cons.prems by auto
    then show ?thesis
      using True Cons.IH [of "acc @ [(fst e, to_string (snd e))]"] Cons.prems(1) fresh
      by (simp add: params_set_fresh)
  next
    case False
    have "fst ` set es \<inter> fst ` set acc = {}" using Cons.prems(2) by auto
    then show ?thesis using False Cons.IH [of acc] Cons.prems(1) by auto
  qed
qed

lemma join_nonempty: "xs \<noteq> [] \<Longrightarrow> hd xs \<noteq> [] \<Longrightarrow> join sep xs \<noteq> []"
proof (cases xs)
  case Nil
  assume "xs \<noteq> []" with Nil show ?thesis by simp
next
  case (Cons x ys)
  assume "hd xs \<noteq> []"
  with Cons show ?thesis by (cases ys) auto
qed

lemma params_toString_Nil_iff: "params_toString qp = [] \<longleftrightarrow> qp = []"
proof (cases qp)
  case Nil
  then show ?thesis by (simp add: params_toString_def)
next
  case (Cons p ps)
  then show ?thesis
    using join_nonempty [of "map (\<lambda>p. urlencode (fst p) @ ''='' @ urlencode (snd p)) qp" "''&''"]
    by (simp add: params_toString_def)
qed

section \<open>The claims\<close>

text \<open>
  C1, as amended. \<open>isRetryableError\<close> returns the \<open>retryable\<close> flag of an error of the
  taxonomy. For every error built by a constructor call other than the base constructor
  with its fourth argument given as \<open>true\<close>, that is the specification's answer: true
  exactly for a rate-limit error. For any other \<open>Error\<close> it is true exactly when the
  message contains \<open>network\<close>, \<open>timeout\<close> or \<open>ECONNRESET\<close>, and it is false for a
  value that is no \<open>Error\<close>. In particular it gives the specification's answer on every
  error with which a tracking or public request fails, whatever the response and its
  body.
\<close>

theorem isRetryableError_by_kind:
  "(\<not> explicit_retryable call \<longrightarrow>
      isRetryableError (ApiErr (construct call)) = spec_isRetryable (ApiErr (construct call)))
   \<and> isRetryableError (JsErr j) = spec_isRetryable (JsErr j)
   \<and> isRetryableError (NonError v) = spec_isRetryable (NonError v)
   \<and> (fst (trackingRequest rt credentials endpoint body sent) = Inl err \<longrightarrow>
        isRetryableError err = spec_isRetryable err)
   \<and> (fst (publicApiRequest rt credentials endpoint options sent) = Inl err' \<longrightarrow>
        isRetryableError err' = spec_isRetryable err')"
proof -
  have "isRetryableError (ApiErr (construct call)) = spec_isRetryable (ApiErr (construct call))"
    if "\<not> explicit_retryable call"
    using that
    by (cases call rule: explicit_retryable.cases)
       (simp_all add: ctor_defs spec_isRetryable_def split: option.splits)
  moreover have "isRetryableError (JsErr j) = spec_isRetryable (JsErr j)"
    by (simp add: spec_isRetryable_def)
  moreover have "isRetryableError (NonError v) = spec_isRetryable (NonError v)"
    by (simp add: spec_isRetryable_def)
  moreover have "isRetryableError err = spec_isRetryable err"
    if "fst (trackingRequest rt credentials endpoint body sent) = Inl err"
    using that by (intro isRetryableError_by_class trackingRequest_class) simp
  moreover have "isRetryableError err' = spec_isRetryable err'"
    if "fst (publicApiRequest rt credentials endpoint options sent) = Inl err'"
    using that by (intro isRetryableError_by_class publicApiRequest_class) simp
  ultimately show ?thesis by blast
qed

theorem isRetryableError_by_kind_witness:
  "\<not> explicit_retryable (New_RateLimitError ''Rate limit exceeded'' (Num 30))
   \<and> isRetryableError (ApiErr (construct (New_RateLimitError ''Rate limit exceeded'' (Num 30))))
       = spec_isRetryable (ApiErr (construct (New_RateLimitError ''Rate limit exceeded'' (Num 30))))
   \<and> fst (trackingRequest (answering (html_page 401)) both_credentials ''/track'' JNull [])
       = Inl (ApiErr (new_AuthenticationError ''Authentication failed. Check your write key.''))
   \<and> isRetryableError (ApiErr (new_AuthenticationError ''Authentication failed. Check your write key.''))
       = spec_isRetryable (ApiErr (new_AuthenticationError ''Authentication failed. Check your write key.''))
   \<and> fst (publicApiRequest (answering (html_page 500)) both_credentials ''/sources'' no_options [])
       = Inl (ApiErr (new_SegmentApiError ''Public API error: 500'' (Some 500) None None))
   \<and> isRetryableError (ApiErr (new_SegmentApiError ''Public API error: 500'' (Some 500) None None))
       = spec_isRetryable (ApiErr (new_SegmentApiError ''Public API error: 500'' (Some 500) None None))"
proof -
  have t: "fst (trackingRequest (answering (html_page 401)) both_credentials ''/track'' JNull [])
       = Inl (ApiErr (new_AuthenticationError ''Authentication failed. Check your write key.''))"
    by (simp add: trackingRequest_def getTrackingHeaders_def both_credentials_def present_def
          answering_def html_page_def tracking_response_def Let_def)
  have five: "string_of_nat 500 = ''500''"
    by (simp add: string_of_nat.simps digit_chars_def)
  have p: "fst (publicApiRequest (answering (html_page 500)) both_credentials ''/sources'' no_options [])
       = Inl (ApiErr (new_SegmentApiError ''Public API error: 500'' (Some 500) None None))"
    by (simp add: publicApiRequest_def getPublicApiHeaders_def both_credentials_def present_def
          answering_def html_page_def public_response_def public_error_message_def
          response_ok_def five Let_def)
  show ?thesis
    using isRetryableError_by_kind
      [where call = "New_RateLimitError ''Rate limit exceeded'' (Num 30)"
         and rt = "answering (html_page 401)" and credentials = both_credentials
         and endpoint = "''/track''" and body = JNull and sent = "[]"
         and err = "ApiErr (new_AuthenticationError ''Authentication failed. Check your write key.'')"]
      isRetryableError_by_kind
      [where rt = "answering (html_page 500)" and credentials = both_credentials
         and endpoint = "''/sources''" and options = no_options and sent = "[]"
         and err' = "ApiErr (new_SegmentApiError ''Public API error: 500'' (Some 500) None None)"]
      t p
    by simp
qed

text \<open>
  C1 as stated fails: a \<open>Generic\<close> error built with the flag set is reported retryable,
  though it is no rate-limit error and no transport failure.
\<close>

theorem isRetryableError_generic_counterexample:
  "isRetryableError (ApiErr (construct (New_SegmentApiError ''boom'' (Some 500) None (Some True))))
   \<and> \<not> spec_isRetryable (ApiErr (construct (New_SegmentApiError ''boom'' (Some 500) None (Some True))))"
  by (simp add: new_SegmentApiError_def spec_isRetryable_def)

text \<open>
  C2, at the failing input. A 429 response whose \<open>Retry-After\<close> header is an HTTP date
  makes a request fail, on both API surfaces, with a rate-limit error that is retryable
  and whose \<open>retryAfterSeconds\<close> is \<open>NaN\<close>, not 60. A header \<open>30\<close> gives 30 and a
  response without the header gives 60.
\<close>

theorem retry_after_http_date:
  "fst (publicApiRequest (answering (rate_limited (Some ''Wed, 21 Oct 2015 07:28:00 GMT'')))
          both_credentials ''/sources'' no_options [])
     = Inl (ApiErr (new_RateLimitError ''Rate limit exceeded'' NaN))
   \<and> fst (trackingRequest (answering (rate_limited (Some ''Wed, 21 Oct 2015 07:28:00 GMT'')))
          both_credentials ''/track'' JNull [])
     = Inl (ApiErr (new_RateLimitError ''Rate limit exceeded'' NaN))
   \<and> retryAfterSeconds (new_RateLimitError ''Rate limit exceeded'' NaN) = Some NaN
   \<and> retryable (new_RateLimitError ''Rate limit exceeded'' NaN)
   \<and> fst (publicApiRequest (answering (rate_limited (Some ''30'')))
          both_credentials ''/sources'' no_options [])
     = Inl (ApiErr (new_RateLimitError ''Rate limit exceeded'' (Num 30)))
   \<and> fst (publicApiRequest (answering (rate_limited None))
          both_credentials ''/sources'' no_options [])
     = Inl (ApiErr (new_RateLimitError ''Rate limit exceeded'' (Num 60)))"
proof -
  have date: "parseInt10 ''Wed, 21 Oct 2015 07:28:00 GMT'' = NaN"
    by (simp add: parseInt_defs)
  have thirty: "parseInt10 ''30'' = Num 30"
    by (simp add: parseInt_defs)
  have creds: "present (writeKey both_credentials)" "present (accessToken both_credentials)"
    by (simp_all add: both_credentials_def present_def)
  show ?thesis
    using creds
    by (simp add: publicApiRequest_def trackingRequest_def getPublicApiHeaders_def
          getTrackingHeaders_def answering_def rate_limited_def public_response_def
          tracking_response_def retry_after_seconds_def date thirty headers_get_def Let_def
          ctor_defs)
qed

text \<open>
  C3. When the write key is absent (left out or empty) a tracking request fails with the
  missing-credentials error naming \<open>X-Segment-Write-Key\<close>, and when the access token is
  absent a public request, such as listing the sources, fails with the one naming
  \<open>X-Segment-Access-Token\<close>; in both cases the list of requests handed to \<open>fetch\<close> is
  unchanged, so no network call is made. The message of the error contains the name of
  the header.
\<close>

theorem missing_credential_no_request:
  "(\<not> present (writeKey credentials) \<longrightarrow>
      trackingRequest rt credentials endpoint body sent
        = (Inl (ApiErr (new_MissingCredentialsError ''X-Segment-Write-Key'')), sent))
   \<and> (\<not> present (accessToken credentials) \<longrightarrow>
      publicApiRequest rt credentials endpoint options sent
        = (Inl (ApiErr (new_MissingCredentialsError ''X-Segment-Access-Token'')), sent)
      \<and> listSources rt credentials params sent
        = (Inl (ApiErr (new_MissingCredentialsError ''X-Segment-Access-Token'')), sent))
   \<and> cls (new_MissingCredentialsError header) = MissingCredentialsError
   \<and> message (new_MissingCredentialsError header)
        = ''Missing required credential: '' @ header @ ''. Please provide it via request headers.''"
  by (simp add: trackingRequest_def publicApiRequest_def listSources_def getTrackingHeaders_def
        getPublicApiHeaders_def ctor_defs)

theorem missing_credential_no_request_witness:
  "\<not> present (writeKey no_credentials)
   \<and> trackingRequest (answering (html_page 200)) no_credentials ''/track'' JNull []
       = (Inl (ApiErr (new_MissingCredentialsError ''X-Segment-Write-Key'')), [])
   \<and> \<not> present (accessToken no_credentials)
   \<and> publicApiRequest (answering (html_page 200)) no_credentials ''/sources'' no_options []
       = (Inl (ApiErr (new_MissingCredentialsError ''X-Segment-Access-Token'')), [])"
  using missing_credential_no_request
    [where credentials = no_credentials and rt = "answering (html_page 200)"
       and endpoint = "''/track''" and body = JNull and sent = "[]"]
    missing_credential_no_request
    [where credentials = no_credentials and rt = "answering (html_page 200)"
       and endpoint = "''/sources''" and options = no_options and sent = "[]"]
  by (simp add: no_credentials_def present_def)

text \<open>
  C4, as amended. When the upstream answers with a 2xx status (other than 204 on the
  public surface) and the JSON parser rejects the body, the request fails with the
  parser's own error: it is passed on as it is, not turned into an error of the
  taxonomy.
\<close>

theorem parse_failure_propagates:
  "(\<forall>request. fetch rt request = Inr response) \<and> response_ok response
     \<and> JSON_parse rt (resp_body response) = Inl err
   \<longrightarrow> (present (writeKey credentials) \<longrightarrow>
          fst (trackingRequest rt credentials endpoint body sent) = Inl (JsErr err))
       \<and> (present (accessToken credentials) \<and> status response \<noteq> 204 \<longrightarrow>
          fst (publicApiRequest rt credentials endpoint options sent) = Inl (JsErr err))"
  by (auto simp: trackingRequest_def publicApiRequest_def getTrackingHeaders_def
        getPublicApiHeaders_def tracking_response_def public_response_def response_json_def
        response_ok_def Let_def)

theorem parse_failure_propagates_witness:
  "(\<forall>request. fetch (answering (html_page 200)) request = Inr (html_page 200))
   \<and> response_ok (html_page 200)
   \<and> JSON_parse (answering (html_page 200)) (resp_body (html_page 200)) = Inl html_syntax_error
   \<and> present (writeKey both_credentials)
   \<and> fst (trackingRequest (answering (html_page 200)) both_credentials ''/track'' JNull [])
       = Inl (JsErr html_syntax_error)
   \<and> present (accessToken both_credentials) \<and> status (html_page 200) \<noteq> 204
   \<and> fst (publicApiRequest (answering (html_page 200)) both_credentials ''/sources'' no_options [])
       = Inl (JsErr html_syntax_error)"
  using parse_failure_propagates
    [where rt = "answering (html_page 200)" and response = "html_page 200"
       and err = html_syntax_error and credentials = both_credentials
       and endpoint = "''/track''" and body = JNull and sent = "[]"]
    parse_failure_propagates
    [where rt = "answering (html_page 200)" and response = "html_page 200"
       and err = html_syntax_error and credentials = both_credentials
       and endpoint = "''/sources''" and options = no_options and sent = "[]"]
  by (simp add: answering_def html_page_def both_credentials_def present_def response_ok_def)

text \<open>
  C4 as stated fails: a 200 response with the body \<open><html>\<close> makes a public request
  fail with the parser's \<open>SyntaxError\<close>, which is no \<open>Generic\<close> error.
\<close>

theorem parse_failure_not_generic_counterexample:
  "fst (publicApiRequest (answering (html_page 200)) both_credentials ''/sources'' no_options [])
     = Inl (JsErr html_syntax_error)
   \<and> \<not> is_generic
         (fst (publicApiRequest (answering (html_page 200)) both_credentials ''/sources'' no_options []))"
  by (simp add: publicApiRequest_def answering_def html_page_def both_credentials_def
        getPublicApiHeaders_def present_def public_response_def response_ok_def
        response_json_def is_generic_def Let_def)

text \<open>
  C5. For every error of the taxonomy \<open>formatError\<close> returns a response with
  \<open>isError = true\<close> and one text, the indented JSON serialisation of an object with the
  two properties \<open>error\<close> and \<open>details\<close>: \<open>error\<close> is the message after \<open>Error: \<close>,
  followed by \<open> (retryable)\<close> exactly when the flag is set; \<open>details\<close> is the record
  \<open>name, message, code, statusCode, retryable\<close>, with \<open>retryAfterSeconds\<close> added for
  a rate-limit error and \<open>details\<close> added for a validation error. The record is given
  for each constructor, and the whole text for a rate-limit and a validation error.
\<close>

theorem formatError_classified:
  "formatError (ApiErr e) =
     \<lparr>content =
        [Some (json_ser ''  '' []
           (JObj [(''error'', JStr (''Error: '' @ message e @ (if retryable e then '' (retryable)'' else []))),
                  (''details'',
                   JObj ([(''name'', JStr (name e)),
                          (''message'', JStr (message e)),
                          (''code'', JStr (code e)),
                          (''statusCode'',
                           (case statusCode e of None \<Rightarrow> JUndefined | Some n \<Rightarrow> JNum (Num (int n)))),
                          (''retryable'', JBool (retryable e))]
                         @ (if cls e = RateLimitError
                            then [(''retryAfterSeconds'',
                                   (case retryAfterSeconds e of None \<Rightarrow> JUndefined
                                    | Some x \<Rightarrow> JNum x))]
                            else [])
                         @ (if cls e = ValidationError
                            then [(''details'',
                                   (case details e of None \<Rightarrow> JUndefined
                                    | Some ds \<Rightarrow>
                                        JObj (map (\<lambda>p. (fst p, JArr (map JStr (snd p)))) ds)))]
                            else [])))]))],
      isError = Some True\<rparr>
   \<and> formatErrorForLogging (ApiErr (new_RateLimitError msg secs)) =
       [(''name'', JStr ''RateLimitError''), (''message'', JStr msg),
        (''code'', JStr ''RATE_LIMIT_EXCEEDED''), (''statusCode'', JNum (Num 429)),
        (''retryable'', JBool True), (''retryAfterSeconds'', JNum secs)]
   \<and> formatErrorForLogging (ApiErr (new_ValidationError msg (Some ds))) =
       [(''name'', JStr ''ValidationError''), (''message'', JStr msg),
        (''code'', JStr ''VALIDATION_ERROR''), (''statusCode'', JNum (Num 400)),
        (''retryable'', JBool False),
        (''details'', JObj (map (\<lambda>p. (fst p, JArr (map JStr (snd p)))) ds))]
   \<and> formatErrorForLogging (ApiErr (new_ValidationError msg None)) =
       [(''name'', JStr ''ValidationError''), (''message'', JStr msg),
        (''code'', JStr ''VALIDATION_ERROR''), (''statusCode'', JNum (Num 400)),
        (''retryable'', JBool False), (''details'', JObj [])]
   \<and> formatErrorForLogging (ApiErr (new_AuthenticationError msg)) =
       [(''name'', JStr ''AuthenticationError''), (''message'', JStr msg),
        (''code'', JStr ''AUTHENTICATION_FAILED''), (''statusCode'', JNum (Num 401)),
        (''retryable'', JBool False)]
   \<and> formatErrorForLogging (ApiErr (new_NotFoundError kind ident)) =
       [(''name'', JStr ''NotFoundError''),
        (''message'', JStr (kind @ '' with ID '' @ [CHR 0x27] @ ident @ [CHR 0x27] @ '' not found'')),
        (''code'', JStr ''NOT_FOUND''), (''statusCode'', JNum (Num 404)),
        (''retryable'', JBool False)]
   \<and> formatErrorForLogging (ApiErr (new_MissingCredentialsError header)) =
       [(''name'', JStr ''MissingCredentialsError''),
        (''message'', JStr (''Missing required credential: '' @ header
                            @ ''. Please provide it via request headers.'')),
        (''code'', JStr ''MISSING_CREDENTIALS''), (''statusCode'', JNum (Num 401)),
        (''retryable'', JBool False)]
   \<and> formatErrorForLogging (ApiErr (new_SegmentApiError msg (Some st) None None)) =
       [(''name'', JStr ''SegmentApiError''), (''message'', JStr msg),
        (''code'', JStr ''SEGMENT_ERROR''), (''statusCode'', JNum (Num (int st))),
        (''retryable'', JBool False)]
   \<and> formatError (ApiErr (new_RateLimitError ''Rate limit exceeded'' (Num 30))) =
       \<lparr>content =
          [Some (join nl
             [''{'',
              ''  '' @ dq ''error'' @ '': '' @ dq ''Error: Rate limit exceeded (retryable)'' @ '','',
              ''  '' @ dq ''details'' @ '': {'',
              ''    '' @ dq ''name'' @ '': '' @ dq ''RateLimitError'' @ '','',
              ''    '' @ dq ''message'' @ '': '' @ dq ''Rate limit exceeded'' @ '','',
              ''    '' @ dq ''code'' @ '': '' @ dq ''RATE_LIMIT_EXCEEDED'' @ '','',
              ''    '' @ dq ''statusCode'' @ '': 429,'',
              ''    '' @ dq ''retryable'' @ '': true,'',
              ''    '' @ dq ''retryAfterSeconds'' @ '': 30'',
              ''  }'',
              ''}''])],
        isError = Some True\<rparr>
   \<and> formatError (ApiErr (new_ValidationError ''Invalid input''
                      (Some [(''email'', [''is required''])]))) =
       \<lparr>content =
          [Some (join nl
             [''{'',
              ''  '' @ dq ''error'' @ '': '' @ dq ''Error: Invalid input'' @ '','',
              ''  '' @ dq ''details'' @ '': {'',
              ''    '' @ dq ''name'' @ '': '' @ dq ''ValidationError'' @ '','',
              ''    '' @ dq ''message'' @ '': '' @ dq ''Invalid input'' @ '','',
              ''    '' @ dq ''code'' @ '': '' @ dq ''VALIDATION_ERROR'' @ '','',
              ''    '' @ dq ''statusCode'' @ '': 400,'',
              ''    '' @ dq ''retryable'' @ '': false,'',
              ''    '' @ dq ''details'' @ '': {'',
              ''      '' @ dq ''email'' @ '': ['',
              ''        '' @ dq ''is required'',
              ''      ]'',
              ''    }'',
              ''  }'',
              ''}''])],
        isError = Some True\<rparr>"
proof -
  have envelope: "formatError (ApiErr e) =
     \<lparr>content =
        [Some (json_ser ''  '' []
           (JObj [(''error'', JStr (''Error: '' @ message e @ (if retryable e then '' (retryable)'' else []))),
                  (''details'',
                   JObj ([(''name'', JStr (name e)),
                          (''message'', JStr (message e)),
                          (''code'', JStr (code e)),
                          (''statusCode'',
                           (case statusCode e of None \<Rightarrow> JUndefined | Some n \<Rightarrow> JNum (Num (int n)))),
                          (''retryable'', JBool (retryable e))]
                         @ (if cls e = RateLimitError
                            then [(''retryAfterSeconds'',
                                   (case retryAfterSeconds e of None \<Rightarrow> JUndefined
                                    | Some x \<Rightarrow> JNum x))]
                            else [])
                         @ (if cls e = ValidationError
                            then [(''details'',
                                   (case details e of None \<Rightarrow> JUndefined
                                    | Some ds \<Rightarrow>
                                        JObj (map (\<lambda>p. (fst p, JArr (map JStr (snd p)))) ds)))]
                            else [])))]))],
      isError = Some True\<rparr>"
    by (simp add: JSON_stringify2_def opt_value_def details_value_def [abs_def] Let_def
          del: json_ser.simps)
  have records:
    "formatErrorForLogging (ApiErr (new_RateLimitError msg secs)) =
       [(''name'', JStr ''RateLimitError''), (''message'', JStr msg),
        (''code'', JStr ''RATE_LIMIT_EXCEEDED''), (''statusCode'', JNum (Num 429)),
        (''retryable'', JBool True), (''retryAfterSeconds'', JNum secs)]"
    "formatErrorForLogging (ApiErr (new_ValidationError msg (Some ds))) =
       [(''name'', JStr ''ValidationError''), (''message'', JStr msg),
        (''code'', JStr ''VALIDATION_ERROR''), (''statusCode'', JNum (Num 400)),
        (''retryable'', JBool False),
        (''details'', JObj (map (\<lambda>p. (fst p, JArr (map JStr (snd p)))) ds))]"
    "formatErrorForLogging (ApiErr (new_ValidationError msg None)) =
       [(''name'', JStr ''ValidationError''), (''message'', JStr msg),
        (''code'', JStr ''VALIDATION_ERROR''), (''statusCode'', JNum (Num 400)),
        (''retryable'', JBool False), (''details'', JObj [])]"
    "formatErrorForLogging (ApiErr (new_AuthenticationError msg)) =
       [(''name'', JStr ''AuthenticationError''), (''message'', JStr msg),
        (''code'', JStr ''AUTHENTICATION_FAILED''), (''statusCode'', JNum (Num 401)),
        (''retryable'', JBool False)]"
    "formatErrorForLogging (ApiErr (new_NotFoundError kind ident)) =
       [(''name'', JStr ''NotFoundError''),
        (''message'', JStr (kind @ '' with ID '' @ [CHR 0x27] @ ident @ [CHR 0x27] @ '' not found'')),
        (''code'', JStr ''NOT_FOUND''), (''statusCode'', JNum (Num 404)),
        (''retryable'', JBool False)]"
    "formatErrorForLogging (ApiErr (new_MissingCredentialsError header)) =
       [(''name'', JStr ''MissingCredentialsError''),
        (''message'', JStr (''Missing required credential: '' @ header
                            @ ''. Please provide it via request headers.'')),
        (''code'', JStr ''MISSING_CREDENTIALS''), (''statusCode'', JNum (Num 401)),
        (''retryable'', JBool False)]"
    "formatErrorForLogging (ApiErr (new_SegmentApiError msg (Some st) None None)) =
       [(''name'', JStr ''SegmentApiError''), (''message'', JStr msg),
        (''code'', JStr ''SEGMENT_ERROR''), (''statusCode'', JNum (Num (int st))),
        (''retryable'', JBool False)]"
    by (simp_all add: ctor_defs opt_value_def details_value_def)
  have rate: "formatError (ApiErr (new_RateLimitError ''Rate limit exceeded'' (Num 30))) =
       \<lparr>content =
          [Some (join nl
             [''{'',
              ''  '' @ dq ''error'' @ '': '' @ dq ''Error: Rate limit exceeded (retryable)'' @ '','',
              ''  '' @ dq ''details'' @ '': {'',
              ''    '' @ dq ''name'' @ '': '' @ dq ''RateLimitError'' @ '','',
              ''    '' @ dq ''message'' @ '': '' @ dq ''Rate limit exceeded'' @ '','',
              ''    '' @ dq ''code'' @ '': '' @ dq ''RATE_LIMIT_EXCEEDED'' @ '','',
              ''    '' @ dq ''statusCode'' @ '': 429,'',
              ''    '' @ dq ''retryable'' @ '': true,'',
              ''    '' @ dq ''retryAfterSeconds'' @ '': 30'',
              ''  }'',
              ''}''])],
        isError = Some True\<rparr>"
    by code_simp
  have invalid: "formatError (ApiErr (new_ValidationError ''Invalid input''
                      (Some [(''email'', [''is required''])]))) =
       \<lparr>content =
          [Some (join nl
             [''{'',
              ''  '' @ dq ''error'' @ '': '' @ dq ''Error: Invalid input'' @ '','',
              ''  '' @ dq ''details'' @ '': {'',
              ''    '' @ dq ''name'' @ '': '' @ dq ''ValidationError'' @ '','',
              ''    '' @ dq ''message'' @ '': '' @ dq ''Invalid input'' @ '','',
              ''    '' @ dq ''code'' @ '': '' @ dq ''VALIDATION_ERROR'' @ '','',
              ''    '' @ dq ''statusCode'' @ '': 400,'',
              ''    '' @ dq ''retryable'' @ '': false,'',
              ''    '' @ dq ''details'' @ '': {'',
              ''      '' @ dq ''email'' @ '': ['',
              ''        '' @ dq ''is required'',
              ''      ]'',
              ''    }'',
              ''  }'',
              ''}''])],
        isError = Some True\<rparr>"
    by code_simp
  show ?thesis
    using envelope records rate invalid by (intro conjI)
qed

text \<open>
  C6, as amended. For every constructor call other than the base constructor with its
  fourth argument given as \<open>true\<close>, the \<open>retryable\<close> flag of the error built is
  determined by its class: it is set exactly for a rate-limit error. Every error of the
  taxonomy with which a tracking or public request fails is built that way.
\<close>

theorem retryable_determined_by_class:
  "(\<not> explicit_retryable call \<longrightarrow>
      retryable (construct call) = (cls (construct call) = RateLimitError))
   \<and> (fst (trackingRequest rt credentials endpoint body sent) = Inl (ApiErr e) \<longrightarrow>
        retryable e = (cls e = RateLimitError))
   \<and> (fst (publicApiRequest rt credentials endpoint options sent) = Inl (ApiErr e') \<longrightarrow>
        retryable e' = (cls e' = RateLimitError))"
proof -
  have "retryable (construct call) = (cls (construct call) = RateLimitError)"
    if "\<not> explicit_retryable call"
    using that
    by (cases call rule: explicit_retryable.cases) (simp_all add: ctor_defs split: option.splits)
  moreover have "retryable e = (cls e = RateLimitError)"
    if "fst (trackingRequest rt credentials endpoint body sent) = Inl (ApiErr e)"
    using that by (rule trackingRequest_class)
  moreover have "retryable e' = (cls e' = RateLimitError)"
    if "fst (publicApiRequest rt credentials endpoint options sent) = Inl (ApiErr e')"
    using that by (rule publicApiRequest_class)
  ultimately show ?thesis by blast
qed

theorem retryable_determined_by_class_witness:
  "\<not> explicit_retryable (New_SegmentApiError ''Public API error: 500'' (Some 500) None None)
   \<and> retryable (construct (New_SegmentApiError ''Public API error: 500'' (Some 500) None None))
       = (cls (construct (New_SegmentApiError ''Public API error: 500'' (Some 500) None None))
            = RateLimitError)
   \<and> fst (trackingRequest (answering (rate_limited None)) both_credentials ''/track'' JNull [])
       = Inl (ApiErr (new_RateLimitError ''Rate limit exceeded'' (Num 60)))
   \<and> retryable (new_RateLimitError ''Rate limit exceeded'' (Num 60))
       = (cls (new_RateLimitError ''Rate limit exceeded'' (Num 60)) = RateLimitError)
   \<and> fst (publicApiRequest (answering (html_page 500)) both_credentials ''/sources'' no_options [])
       = Inl (ApiErr (new_SegmentApiError ''Public API error: 500'' (Some 500) None None))
   \<and> retryable (new_SegmentApiError ''Public API error: 500'' (Some 500) None None)
       = (cls (new_SegmentApiError ''Public API error: 500'' (Some 500) None None) = RateLimitError)"
proof -
  have t: "fst (trackingRequest (answering (rate_limited None)) both_credentials ''/track'' JNull [])
       = Inl (ApiErr (new_RateLimitError ''Rate limit exceeded'' (Num 60)))"
    by (simp add: trackingRequest_def getTrackingHeaders_def both_credentials_def present_def
          answering_def rate_limited_def tracking_response_def retry_after_seconds_def
          headers_get_def Let_def)
  have five: "string_of_nat 500 = ''500''"
    by (simp add: string_of_nat.simps digit_chars_def)
  have p: "fst (publicApiRequest (answering (html_page 500)) both_credentials ''/sources'' no_options [])
       = Inl (ApiErr (new_SegmentApiError ''Public API error: 500'' (Some 500) None None))"
    by (simp add: publicApiRequest_def getPublicApiHeaders_def both_credentials_def present_def
          answering_def html_page_def public_response_def public_error_message_def
          response_ok_def five Let_def)
  show ?thesis
    using retryable_determined_by_class
      [where call = "New_SegmentApiError ''Public API error: 500'' (Some 500) None None"
         and rt = "answering (rate_limited None)" and credentials = both_credentials
         and endpoint = "''/track''" and body = JNull and sent = "[]"
         and e = "new_RateLimitError ''Rate limit exceeded'' (Num 60)"]
      retryable_determined_by_class
      [where rt = "answering (html_page 500)" and credentials = both_credentials
         and endpoint = "''/sources''" and options = no_options and sent = "[]"
         and e' = "new_SegmentApiError ''Public API error: 500'' (Some 500) None None"]
      t p
    by simp
qed

text \<open>
  C6 as stated fails: the base constructor takes the flag as an argument, so two errors
  of the same class \<open>SegmentApiError\<close> differ in it.
\<close>

theorem retryable_set_independently_counterexample:
  "cls (construct (New_SegmentApiError ''boom'' (Some 500) None (Some True))) = SegmentApiError
   \<and> cls (construct (New_SegmentApiError ''boom'' (Some 500) None None)) = SegmentApiError
   \<and> retryable (construct (New_SegmentApiError ''boom'' (Some 500) None (Some True)))
   \<and> \<not> retryable (construct (New_SegmentApiError ''boom'' (Some 500) None None))"
  by (simp add: new_SegmentApiError_def)

text \<open>
  C7. For a paginated response with no items the rendering is these lines joined by
  newlines: the heading made from the entity type, an empty line, the summary line
  showing the count 0 (after the total when \<open>totalEntries\<close> is present), the line
  telling of more pages when a next cursor is present, an empty line, and the one line
  \<open>_No items found._\<close>. None of the lines begins with the bar of a table row, and the
  no-items line occurs once.
\<close>

theorem empty_collection_rendering:
  assumes "isPaginatedResponse data" and "response_items data = []"
  shows "\<exists>lines.
           lines =
             [''## '' @ capitalize entityType, [],
              (if opt_member (get_prop data ''pagination'') ''totalEntries'' \<noteq> JUndefined
               then ''**Total:** ''
                    @ to_string (opt_member (get_prop data ''pagination'') ''totalEntries'')
                    @ '' | **Showing:** 0''
               else ''**Showing:** 0'')]
             @ (if truthy (opt_member (get_prop data ''pagination'') ''next'')
                then [''**More available:** Yes (cursor: `''
                      @ to_string (get_prop (get_prop data ''pagination'') ''next'') @ ''`)'']
                else [])
             @ [[], ''_No items found._'']
           \<and> paginated_lines (response_items data) (get_prop data ''pagination'') entityType
               = Inr lines
           \<and> formatAsMarkdown data entityType = Inr (join nl lines)
           \<and> list_all (\<lambda>line. take 1 line \<noteq> ''|'') lines
           \<and> length (filter (\<lambda>line. line = ''_No items found._'') lines) = 1"
  using assms
  by (simp add: formatAsMarkdown_def paginated_lines_def paginated_preamble_def
        formatPaginatedAsMarkdown_def string_of_nat_0 Let_def del: isPaginatedResponse.simps)

theorem empty_collection_rendering_witness:
  "isPaginatedResponse empty_sources \<and> response_items empty_sources = []
   \<and> formatAsMarkdown empty_sources ''sources''
       = Inr (join nl [''## Sources'', [], ''**Total:** 0 | **Showing:** 0'', [],
                       ''_No items found._''])"
proof -
  have p: "isPaginatedResponse empty_sources" and e: "response_items empty_sources = []"
    by (simp_all add: empty_sources_def response_items_def)
  show ?thesis
    using empty_collection_rendering [OF p e, of "''sources''"] p e
    by (auto simp: empty_sources_def opt_member_def nullish_def object_prototype_def
          number_to_string_def string_of_int_def string_of_nat_0 toUpperCase_char_def
          lower_letters_def upper_letters_def simp del: isPaginatedResponse.simps)
qed




text \<open>
  C9, as amended. For an object that is not a paginated response the rendering is the
  heading made from the entity type with a final \<open>s\<close> removed and its first letter
  capitalised, an empty line, and then for each field in order: nothing when its value is
  \<open>null\<close> or \<open>undefined\<close>; for an object or array the label line, the fence, the
  indented serialisation and the closing fence; for a scalar the line
  \<open>**Key:** value\<close>. The label is the field name with a space before each capital, its
  first character capitalised, and surrounding white space trimmed. For a field name
  without surrounding white space that is the name with a space before each internal
  capital and its first character capitalised, so for an object with such names the
  rendering is the one with these labels.
\<close>

theorem object_rendering:
  "(\<not> isPaginatedResponse (JObj data) \<longrightarrow>
      formatAsMarkdown (JObj data) entityType
        = Inr (object_text_with trimmed_title data entityType))
   \<and> (trim key = key \<longrightarrow> trimmed_title key = spaced_title key)
   \<and> (\<not> isPaginatedResponse (JObj data)
        \<and> list_all (\<lambda>entry. trim (fst entry) = fst entry) data \<longrightarrow>
        formatAsMarkdown (JObj data) entityType
          = Inr (object_text_with spaced_title data entityType))"
proof -
  have trimmed: "formatAsMarkdown (JObj data) entityType
                   = Inr (object_text_with trimmed_title data entityType)"
    if "\<not> isPaginatedResponse (JObj data)"
    using that
    by (simp add: formatAsMarkdown_def formatObjectAsMarkdown_spec
          del: isPaginatedResponse.simps)
  have label: "trimmed_title key = spaced_title key" if "trim key = key"
    using that by (rule trimmed_title_spaced_title)
  have spaced: "formatAsMarkdown (JObj data) entityType
                  = Inr (object_text_with spaced_title data entityType)"
    if plain: "\<not> isPaginatedResponse (JObj data)"
      and keys: "list_all (\<lambda>entry. trim (fst entry) = fst entry) data"
    using trimmed [OF plain] object_text_with_trimmed_keys [OF keys, of entityType]
    by (simp only:)
  show ?thesis
    using trimmed label spaced by (intro conjI impI) simp_all
qed

theorem object_rendering_witness:
  "\<not> isPaginatedResponse (JObj widget)
   \<and> list_all (\<lambda>entry. trim (fst entry) = fst entry) widget
   \<and> trim ''workspaceID'' = ''workspaceID''
   \<and> trimmed_title ''workspaceID'' = ''Workspace I D''
   \<and> formatAsMarkdown (JObj widget) ''sources'' =
       Inr (join nl
         [''## Source'',
          [],
          ''**Id:** abc'',
          ''**Created At:** 2024-01-01'',
          ''**Workspace I D:** 7'',
          ''**Name:** Widget'',
          ''**Enabled:** true'',
          ''**Labels:**'',
          ''```json'',
          ''[]'',
          ''```'',
          ''**Nested:**'',
          ''```json'',
          ''{'',
          ''  '' @ dq ''x'' @ '': 1'',
          ''}'',
          ''```''])"
proof -
  have plain: "\<not> isPaginatedResponse (JObj widget)"
    by (simp add: widget_def)
  have keys: "list_all (\<lambda>entry. trim (fst entry) = fst entry) widget"
    by code_simp
  have key: "trim ''workspaceID'' = ''workspaceID''"
    by code_simp
  note inst = object_rendering [where data = widget and entityType = "''sources''"
                                 and key = "''workspaceID''"]
  have "trimmed_title ''workspaceID'' = spaced_title ''workspaceID''"
    using inst key by blast
  also have "\<dots> = ''Workspace I D''"
    by code_simp
  finally have label: "trimmed_title ''workspaceID'' = ''Workspace I D''" .
  have "formatAsMarkdown (JObj widget) ''sources''
          = Inr (object_text_with spaced_title widget ''sources'')"
    using inst plain keys by blast
  also have "\<dots> = Inr (join nl
         [''## Source'',
          [],
          ''**Id:** abc'',
          ''**Created At:** 2024-01-01'',
          ''**Workspace I D:** 7'',
          ''**Name:** Widget'',
          ''**Enabled:** true'',
          ''**Labels:**'',
          ''```json'',
          ''[]'',
          ''```'',
          ''**Nested:**'',
          ''```json'',
          ''{'',
          ''  '' @ dq ''x'' @ '': 1'',
          ''}'',
          ''```''])"
    by code_simp
  finally have rendered: "formatAsMarkdown (JObj widget) ''sources'' =
       Inr (join nl
         [''## Source'',
          [],
          ''**Id:** abc'',
          ''**Created At:** 2024-01-01'',
          ''**Workspace I D:** 7'',
          ''**Name:** Widget'',
          ''**Enabled:** true'',
          ''**Labels:**'',
          ''```json'',
          ''[]'',
          ''```'',
          ''**Nested:**'',
          ''```json'',
          ''{'',
          ''  '' @ dq ''x'' @ '': 1'',
          ''}'',
          ''```''])" .
  show ?thesis
    using plain keys key label rendered by (intro conjI)
qed

text \<open>
  C9 as stated fails: the label of a field named \<open>id\<close> followed by a space is
  \<open>Id\<close>, the space trimmed, where a space before each internal capital and a capital
  first character give \<open>Id\<close> followed by the space; and the label of a space followed
  by \<open>a\<close> is \<open>a\<close>.
\<close>

theorem object_rendering_trim_counterexample:
  "formatAsMarkdown (JObj [(''id '', JStr ''v'')]) ''source''
     = Inr (join nl [''## Source'', [], ''**Id:** v''])
   \<and> object_text_with spaced_title [(''id '', JStr ''v'')] ''source''
       = join nl [''## Source'', [], ''**Id :** v'']
   \<and> formatAsMarkdown (JObj [(''id '', JStr ''v'')]) ''source''
       \<noteq> Inr (object_text_with spaced_title [(''id '', JStr ''v'')] ''source'')
   \<and> formatKey '' a'' = ''a''
   \<and> spaced_title '' a'' = '' a''"
  by code_simp

text \<open>
  C10. Without a parameter mapping the query string is empty. For a mapping (its names
  distinct, as the properties of an object are) the query string holds, in order and
  joined by \<open>&\<close>, exactly the entries whose value is neither \<open>undefined\<close> nor
  \<open>null\<close>, each as the encoded name, \<open>=\<close> and the encoded string of the value, after
  a leading \<open>?\<close>; when no entry is left it is empty, without the \<open>?\<close>.
\<close>

theorem buildQueryString_entries:
  "buildQueryString None = []
   \<and> (distinct (map fst entries) \<longrightarrow>
        buildQueryString (Some entries) =
          (if filter (\<lambda>p. snd p \<noteq> JUndefined \<and> snd p \<noteq> JNull) entries = [] then []
           else ''?'' @ join ''&''
                  (map (\<lambda>p. urlencode (fst p) @ ''='' @ urlencode (to_string (snd p)))
                     (filter (\<lambda>p. snd p \<noteq> JUndefined \<and> snd p \<noteq> JNull) entries))))"
proof -
  have "buildQueryString (Some entries) =
          (if filter (\<lambda>p. snd p \<noteq> JUndefined \<and> snd p \<noteq> JNull) entries = [] then []
           else ''?'' @ join ''&''
                  (map (\<lambda>p. urlencode (fst p) @ ''='' @ urlencode (to_string (snd p)))
                     (filter (\<lambda>p. snd p \<noteq> JUndefined \<and> snd p \<noteq> JNull) entries)))"
    if d: "distinct (map fst entries)"
  proof -
    have c: "collect_params entries [] =
             map (\<lambda>p. (fst p, to_string (snd p)))
               (filter (\<lambda>p. snd p \<noteq> JUndefined \<and> snd p \<noteq> JNull) entries)"
      using collect_params_distinct [OF d, of "[]"] by simp
    show ?thesis
      unfolding buildQueryString_def Let_def option.case c params_toString_Nil_iff
      by (simp add: params_toString_def comp_def del: join.simps)
  qed
  then show ?thesis by (simp add: buildQueryString_def)
qed

theorem buildQueryString_entries_witness:
  "distinct (map fst [(''count'', JNum (Num 20)), (''cursor'', JUndefined), (''q'', JStr ''a b&c'')])
   \<and> buildQueryString
        (Some [(''count'', JNum (Num 20)), (''cursor'', JUndefined), (''q'', JStr ''a b&c'')])
       = ''?count=20&q=a+b%26c''
   \<and> buildQueryString (Some [(''cursor'', JUndefined), (''after'', JNull)]) = []"
proof -
  have enc: "urlencode ''count'' = ''count''" "urlencode ''q'' = ''q''" "urlencode ''20'' = ''20''"
    "urlencode ''a b&c'' = ''a+b%26c''"
    by (simp_all add: urlencode_def urlencode_char_def lower_letters_def upper_letters_def
          digit_chars_def upper_hex_chars_def)
  have twenty: "number_to_string (Num 20) = ''20''"
    by (simp add: number_to_string_def string_of_int_def string_of_nat.simps digit_chars_def)
  show ?thesis
    using buildQueryString_entries
      [of "[(''count'', JNum (Num 20)), (''cursor'', JUndefined), (''q'', JStr ''a b&c'')]"]
      buildQueryString_entries [of "[(''cursor'', JUndefined), (''after'', JNull)]"]
    by (simp add: enc twenty)
qed

end
